theory Spec2Isabelle
  imports Complex_Main
begin

section \<open>Data model\<close>

text \<open>
  Modelled from the spec: the state enumeration \<open>ETradeOfferState\<close> is declared by the
  trading-session engine, not by the service. The spec lists its members as a closed
  enumeration; the numeric codes are the engine's (1 to 11, none of them 0), and they
  matter in one place only: the service tests \<open>if (oldState)\<close>, which is JavaScript
  truthiness of a number or null.
\<close>

datatype ETradeOfferState =
    Invalid | Active | Accepted | Countered | Expired | Canceled | Declined
  | InvalidItems | CreatedNeedsConfirmation | CanceledBySecondFactor | InEscrow

fun state_code :: "ETradeOfferState \<Rightarrow> nat" where
  "state_code Invalid = 1"
| "state_code Active = 2"
| "state_code Accepted = 3"
| "state_code Countered = 4"
| "state_code Expired = 5"
| "state_code Canceled = 6"
| "state_code Declined = 7"
| "state_code InvalidItems = 8"
| "state_code CreatedNeedsConfirmation = 9"
| "state_code CanceledBySecondFactor = 10"
| "state_code InEscrow = 11"

text \<open>\<open>if (oldState)\<close> for \<open>oldState: ETradeOfferState | null\<close>.\<close>

definition truthy :: "ETradeOfferState option \<Rightarrow> bool" where
  "truthy v = (case v of None \<Rightarrow> False | Some s \<Rightarrow> state_code s \<noteq> 0)"

record item =
  appid :: nat
  contextid :: string
  assetid :: string

datatype SteamID = SteamID (getSteamID64: string)

text \<open>
  The engine's offer object (\<open>SteamTradeOfferManager.TradeOffer\<close>), with the fields and
  methods the service reads. Dates are their \<open>getTime()\<close> value, in milliseconds;
  \<open>isGlitched\<close> is the value the engine's method of that name returns; \<open>null\<close> is
  \<open>None\<close>.
\<close>

record SteamTradeOffer =
  partner :: SteamID
  offer_id :: string
  message :: string
  state :: ETradeOfferState
  itemsToGive :: "item list"
  itemsToReceive :: "item list"
  isGlitched :: bool
  isOurOffer :: bool
  created :: int
  updated :: int
  expires :: int
  tradeID :: "string option"
  fromRealTimeTrade :: bool
  confirmationMethod :: nat
  escrowEnds :: "int option"

text \<open>The projected offer of the outward events and of the API responses (\<open>TradeOffer\<close>).\<close>

record TradeOffer =
  dto_partner :: string
  dto_id :: string
  dto_message :: string
  dto_state :: ETradeOfferState
  dto_itemsToGive :: "item list"
  dto_itemsToReceive :: "item list"
  dto_isGlitched :: bool
  dto_isOurOffer :: bool
  createdAt :: int
  updatedAt :: int
  expiresAt :: int
  dto_tradeID :: "string option"
  dto_fromRealTimeTrade :: bool
  dto_confirmationMethod :: nat
  escrowEndsAt :: "int option"

text \<open>\<open>Math.floor(d.getTime() / 1000)\<close>: real division, then the floor.\<close>

definition epoch_seconds :: "int \<Rightarrow> int" where
  "epoch_seconds ms = \<lfloor>real_of_int ms / 1000\<rfloor>"

definition mapOffer :: "SteamTradeOffer \<Rightarrow> TradeOffer" where
  "mapOffer offer =
     \<lparr> dto_partner = getSteamID64 (partner offer),
       dto_id = offer_id offer,
       dto_message = message offer,
       dto_state = state offer,
       dto_itemsToGive = itemsToGive offer,
       dto_itemsToReceive = itemsToReceive offer,
       dto_isGlitched = isGlitched offer,
       dto_isOurOffer = isOurOffer offer,
       createdAt = epoch_seconds (created offer),
       updatedAt = epoch_seconds (updated offer),
       expiresAt = epoch_seconds (expires offer),
       dto_tradeID = tradeID offer,
       dto_fromRealTimeTrade = fromRealTimeTrade offer,
       dto_confirmationMethod = confirmationMethod offer,
       escrowEndsAt =
         (case escrowEnds offer of None \<Rightarrow> None | Some d \<Rightarrow> Some (epoch_seconds d)) \<rparr>"

text \<open>The three kinds of the outward channel, each with its payload.\<close>

datatype event =
    TradesReceived TradeOffer
  | TradesSent TradeOffer
  | TradesChanged TradeOffer "ETradeOfferState option"

text \<open>The \<open>offer\<close> field of an event's payload.\<close>

fun payload :: "event \<Rightarrow> TradeOffer" where
  "payload (TradesReceived offer) = offer"
| "payload (TradesSent offer) = offer"
| "payload (TradesChanged offer oldState) = offer"

text \<open>
  The closure \<open>publish\<close> of \<open>publishOffer\<close> chooses one event and hands it to the events
  service; every branch of it is a \<open>return this.eventsService.publish(kind, payload)\<close>.
  \<open>classify\<close> is that choice, branch for branch.
\<close>

definition classify :: "SteamTradeOffer \<Rightarrow> ETradeOfferState option \<Rightarrow> event" where
  "classify offer oldState =
     (if truthy oldState then TradesChanged (mapOffer offer) oldState
      else if \<not> isOurOffer offer then
        (if state offer = Active then TradesReceived (mapOffer offer)
         else TradesChanged (mapOffer offer) None)
      else if state offer = CreatedNeedsConfirmation then TradesSent (mapOffer offer)
      else if state offer = Active \<and> length (itemsToGive offer) = 0
        then TradesSent (mapOffer offer)
      else TradesChanged (mapOffer offer) None)"

section \<open>Errors, collaborators and the state of the service\<close>

text \<open>
  An error object of the engine: its \<open>message\<close> and its \<open>eresult\<close> (\<open>None\<close> when
  undefined).
\<close>

datatype steam_error = SteamError (err_message: string) (err_eresult: "int option")

text \<open>
  What a promise of the service is rejected with: an error passed through as it came
  (\<open>reject(err)\<close>), or one of the typed exceptions the service constructs.
\<close>

datatype error =
    Raw steam_error
  | BadRequestException string
  | NotFoundException string
  | EResultException string int

record TradeOfferData =
  published :: "ETradeOfferState option"

text \<open>
  \<open>manager.pollData\<close>. \<open>sent\<close> and \<open>received\<close> are objects whose keys are enumerated
  (\<open>Object.keys\<close>), so they are association lists in key order; \<open>offerData\<close> may be
  undefined (\<open>None\<close>).
\<close>

record PollData =
  sent :: "(string \<times> ETradeOfferState) list"
  received :: "(string \<times> ETradeOfferState) list"
  offerData :: "(string \<rightharpoonup> TradeOfferData) option"

record EnsureOfferPublishedTask =
  task_id :: string

record CreateTradeDto =
  ct_partner :: string
  ct_token :: "string option"
  ct_message :: "string option"
  ct_itemsToGive :: "item list"
  ct_itemsToReceive :: "item list"

datatype level = LDebug | LLog | LWarn | LError

text \<open>
  What an operation does to its collaborators, in order. A log line is recorded with its
  level, the fixed text of its template and the error it reports, if any; interpolated
  data is left out.
\<close>

datatype effect =
    GetOffer string
  | Publish event
  | SendOffer CreateTradeDto
  | CancelOffer string
  | AcceptConfirmation string
  | DoPoll
  | Logged level string "error option"
  | ConsoleLog error

text \<open>
  What the collaborators answer while one operation runs: the engine's full-offer fetch,
  the events service's publish (\<open>None\<close>: resolved), the engine's send and cancel (the
  offer as the call leaves it), the confirmation call, and
  \<open>configService.getOrThrow('steam').identitySecret\<close> (\<open>Inl\<close>: it threw).
\<close>

record env =
  getOffer :: "string \<Rightarrow> steam_error + SteamTradeOffer"
  eventsService_publish :: "event \<Rightarrow> error option"
  send :: "CreateTradeDto \<Rightarrow> steam_error + SteamTradeOffer"
  cancel :: "SteamTradeOffer \<Rightarrow> steam_error + SteamTradeOffer"
  acceptConfirmationForObject :: "string \<Rightarrow> string \<Rightarrow> steam_error option"
  identitySecret :: "error + string"

text \<open>
  The state the service reads and writes: the engine's poll data, the effects so far, the
  clock (milliseconds), the field \<open>ensurePollDataTimeout\<close>, the timers pending in the
  event loop as (handle, due time), the next fresh handle, and the tasks pushed onto
  \<open>ensureOfferPublishedQueue\<close>.
\<close>

record world =
  pollData :: PollData
  trace :: "effect list"
  now :: nat
  ensurePollDataTimeout :: "nat option"
  timers :: "(nat \<times> nat) list"
  next_handle :: nat
  queue :: "EnsureOfferPublishedTask list"

text \<open>
  A promise, run to its settlement: the outcome (\<open>Inl\<close>: rejected) and the state it
  leaves. \<open>then_p\<close> is \<open>.then(f)\<close> and \<open>await\<close>; \<open>catch_p\<close> is \<open>.catch(h)\<close>.
\<close>

type_synonym 'a async = "world \<Rightarrow> (error + 'a) \<times> world"

definition resolve :: "'a \<Rightarrow> 'a async" where
  "resolve x w = (Inr x, w)"

definition reject :: "error \<Rightarrow> 'a async" where
  "reject e w = (Inl e, w)"

definition then_p :: "'a async \<Rightarrow> ('a \<Rightarrow> 'b async) \<Rightarrow> 'b async" where
  "then_p p f w = (case p w of (Inl e, w') \<Rightarrow> (Inl e, w') | (Inr x, w') \<Rightarrow> f x w')"

definition catch_p :: "'a async \<Rightarrow> (error \<Rightarrow> 'a async) \<Rightarrow> 'a async" where
  "catch_p p h w = (case p w of (Inl e, w') \<Rightarrow> h e w' | (Inr x, w') \<Rightarrow> (Inr x, w'))"

definition emit :: "effect \<Rightarrow> unit async" where
  "emit e w = (Inr (), w\<lparr>trace := trace w @ [e]\<rparr>)"

fun publishes :: "effect list \<Rightarrow> event list" where
  "publishes [] = []"
| "publishes (Publish ev # es) = ev # publishes es"
| "publishes (_ # es) = publishes es"

fun fetches :: "effect list \<Rightarrow> string list" where
  "fetches [] = []"
| "fetches (GetOffer i # es) = i # fetches es"
| "fetches (_ # es) = fetches es"

fun cancels :: "effect list \<Rightarrow> string list" where
  "cancels [] = []"
| "cancels (CancelOffer i # es) = i # cancels es"
| "cancels (_ # es) = cancels es"

text \<open>
  Modelled from the spec: the engine's per-offer store \<open>offer.data(key[, value])\<close> is not
  part of the service. The spec has it as "a durable get/set marker store keyed by offer
  id", delegated to the engine's poll data: \<open>offer.data('published')\<close> reads
  \<open>pollData.offerData[offer.id].published\<close> and \<open>offer.data('published', v)\<close> writes it.
\<close>

definition offer_data_get :: "SteamTradeOffer \<Rightarrow> world \<Rightarrow> ETradeOfferState option" where
  "offer_data_get offer w =
     (case offerData (pollData w) of
        None \<Rightarrow> None
      | Some m \<Rightarrow> (case m (offer_id offer) of None \<Rightarrow> None | Some d \<Rightarrow> published d))"

definition offer_data_set :: "SteamTradeOffer \<Rightarrow> ETradeOfferState \<Rightarrow> unit async" where
  "offer_data_set offer v w =
     (let m = (case offerData (pollData w) of None \<Rightarrow> Map.empty | Some m \<Rightarrow> m);
          d = (case m (offer_id offer) of None \<Rightarrow> \<lparr>published = None\<rparr> | Some d \<Rightarrow> d)
      in (Inr (),
          w\<lparr>pollData := (pollData w)\<lparr>offerData :=
               Some (m(offer_id offer \<mapsto> d\<lparr>published := Some v\<rparr>))\<rparr>\<rparr>))"

section \<open>The reconciler\<close>

definition events_publish :: "env \<Rightarrow> event \<Rightarrow> unit async" where
  "events_publish env ev w =
     ((case eventsService_publish env ev of None \<Rightarrow> Inr () | Some e \<Rightarrow> Inl e),
      w\<lparr>trace := trace w @ [Publish ev]\<rparr>)"

definition publishOffer ::
  "env \<Rightarrow> SteamTradeOffer \<Rightarrow> ETradeOfferState option \<Rightarrow> unit async" where
  "publishOffer env offer oldState =
     catch_p
       (then_p (events_publish env (classify offer oldState))
          (\<lambda>_. offer_data_set offer (state offer)))
       (\<lambda>err. emit (Logged LWarn ''Error publishing offer: '' (Some err)))"

text \<open>\<open>_getTrade\<close>.\<close>

definition priv_getTrade :: "env \<Rightarrow> string \<Rightarrow> SteamTradeOffer async" where
  "priv_getTrade env i =
     then_p (emit (GetOffer i))
       (\<lambda>_. case getOffer env i of
              Inl err \<Rightarrow>
                if err_message err = ''NoMatch''
                then reject (BadRequestException ''Trade offer not found'')
                else reject (Raw err)
            | Inr offer \<Rightarrow> resolve offer)"

text \<open>
  The cheap reads at the head of \<open>ensureOfferPublished\<close>:
  \<open>pollData.sent[id] ?? pollData.received[id] ?? null\<close>, and
  \<open>(pollData.offerData ?? {})[id]?.published ?? null\<close>.
\<close>

definition currentState :: "PollData \<Rightarrow> string \<Rightarrow> ETradeOfferState option" where
  "currentState pd i =
     (case map_of (sent pd) i of Some s \<Rightarrow> Some s | None \<Rightarrow> map_of (received pd) i)"

definition publishedState :: "PollData \<Rightarrow> string \<Rightarrow> ETradeOfferState option" where
  "publishedState pd i =
     (let pollDataOfferData = (case offerData pd of None \<Rightarrow> Map.empty | Some m \<Rightarrow> m);
          offerData' = pollDataOfferData i
      in case offerData' of None \<Rightarrow> None | Some d \<Rightarrow> published d)"

text \<open>The test that ends \<open>ensureOfferPublished\<close> before any fetch.\<close>

definition alreadyPublished :: "PollData \<Rightarrow> string \<Rightarrow> bool" where
  "alreadyPublished pd i =
     (case currentState pd i of
        None \<Rightarrow> False
      | Some c \<Rightarrow> Some c = publishedState pd i)"

definition ensureOfferPublished :: "env \<Rightarrow> EnsureOfferPublishedTask \<Rightarrow> unit async" where
  "ensureOfferPublished env task w =
     (let i = task_id task
      in if alreadyPublished (pollData w) i then resolve () w
         else then_p (priv_getTrade env i)
                (\<lambda>offer w'.
                   let publishedState = offer_data_get offer w'
                   in if Some (state offer) = publishedState then resolve () w'
                      else publishOffer env offer publishedState w') w)"

section \<open>Live notifications, the debounce timer and the sweep queue\<close>

definition setTimeout :: "nat \<Rightarrow> world \<Rightarrow> nat \<times> world" where
  "setTimeout delay w =
     (next_handle w,
      w\<lparr>timers := timers w @ [(next_handle w, now w + delay)],
        next_handle := Suc (next_handle w)\<rparr>)"

definition clearTimeout :: "nat \<Rightarrow> world \<Rightarrow> world" where
  "clearTimeout h w = w\<lparr>timers := filter (\<lambda>(h', due). h' \<noteq> h) (timers w)\<rparr>"

text \<open>The callback \<open>ensurePollData\<close> hands to \<open>setTimeout\<close>.\<close>

definition sweep :: "world \<Rightarrow> world" where
  "sweep w =
     w\<lparr>trace := trace w @
          [Logged LDebug ''Enqueuing offers to ensure poll data is published'' None],
       queue := queue w @
          map (\<lambda>i. \<lparr>task_id = i\<rparr>)
            (map fst (sent (pollData w)) @ map fst (received (pollData w)))\<rparr>"

definition ensurePollData :: "world \<Rightarrow> world" where
  "ensurePollData w =
     (let w1 = (case ensurePollDataTimeout w of None \<Rightarrow> w | Some h \<Rightarrow> clearTimeout h w);
          (h, w2) = setTimeout 1000 w1
      in w2\<lparr>ensurePollDataTimeout := Some h\<rparr>)"

text \<open>
  The event loop: when the clock reaches \<open>t\<close>, every pending timer that is due fires
  once, oldest first, and is pending no more.
\<close>

fun fire_due :: "nat \<Rightarrow> (nat \<times> nat) list \<Rightarrow> world \<Rightarrow> world" where
  "fire_due t [] w = w"
| "fire_due t ((h, due) # ts) w =
     (if due \<le> t then fire_due t ts (sweep (clearTimeout h w)) else fire_due t ts w)"

definition advance :: "nat \<Rightarrow> world \<Rightarrow> world" where
  "advance t w = (fire_due t (timers w) w)\<lparr>now := max (now w) t\<rparr>"

text \<open>The four listeners the constructor registers on the engine.\<close>

datatype notification =
    newOffer SteamTradeOffer
  | sentOfferChanged SteamTradeOffer ETradeOfferState
  | receivedOfferChanged SteamTradeOffer ETradeOfferState
  | pollData_event

fun on_event :: "env \<Rightarrow> notification \<Rightarrow> world \<Rightarrow> world" where
  "on_event env (newOffer offer) w = snd (publishOffer env offer None w)"
| "on_event env (sentOfferChanged offer oldState) w =
     snd (publishOffer env offer (Some oldState) w)"
| "on_event env (receivedOfferChanged offer oldState) w =
     snd (publishOffer env offer (Some oldState) w)"
| "on_event env pollData_event w = ensurePollData w"

text \<open>
  One task of the queue, as the sweep pushed it:
  \<open>ensureOfferPublishedQueue.push({ id }).catch(...)\<close>. The queue has one worker, so the
  tasks run one after the other.
\<close>

definition run_task :: "env \<Rightarrow> EnsureOfferPublishedTask \<Rightarrow> unit async" where
  "run_task env task =
     catch_p (ensureOfferPublished env task)
       (\<lambda>err. then_p (emit (Logged LWarn ''Error ensuring offer published: '' (Some err)))
                 (\<lambda>_. emit (ConsoleLog err)))"

fun drain :: "env \<Rightarrow> EnsureOfferPublishedTask list \<Rightarrow> world \<Rightarrow> world" where
  "drain env [] w = w"
| "drain env (task # tasks) w = drain env tasks (snd (run_task env task w))"

text \<open>
  A burst of poll cycles: at each time the engine stores its poll data and emits
  \<open>pollData\<close>; the clock moves on between them.
\<close>

fun poll_cycles :: "(nat \<times> PollData) list \<Rightarrow> world \<Rightarrow> world" where
  "poll_cycles [] w = w"
| "poll_cycles ((t, pd) # cs) w =
     poll_cycles cs (ensurePollData ((advance t w)\<lparr>pollData := pd\<rparr>))"

section \<open>The API operations\<close>

definition getTrade :: "env \<Rightarrow> string \<Rightarrow> TradeOffer async" where
  "getTrade env i =
     then_p
       (catch_p (priv_getTrade env i)
          (\<lambda>err. then_p (emit (Logged LError ''Error getting trade offer: '' (Some err)))
                    (\<lambda>_. reject err)))
       (\<lambda>offer. resolve (mapOffer offer))"

text \<open>The callback of \<open>offer.send\<close>, inside the promise \<open>createTrade\<close> builds.\<close>

definition createTrade_send :: "env \<Rightarrow> CreateTradeDto \<Rightarrow> TradeOffer async" where
  "createTrade_send env dto =
     then_p (emit (Logged LDebug ''Items to give: '' None))
       (\<lambda>_. then_p (emit (Logged LDebug ''Items to receive: '' None))
          (\<lambda>_. then_p (emit (SendOffer dto))
             (\<lambda>_. case send env dto of
                    Inl err \<Rightarrow>
                      if err_message err = ''Cannot send an empty trade offer''
                      then reject (BadRequestException ''Cannot send an empty trade offer'')
                      else (case err_eresult err of
                              Some r \<Rightarrow> reject (EResultException (err_message err) r)
                            | None \<Rightarrow> reject (Raw err))
                  | Inr offer \<Rightarrow> resolve (mapOffer offer))))"

definition createTrade :: "env \<Rightarrow> CreateTradeDto \<Rightarrow> TradeOffer async" where
  "createTrade env dto =
     then_p (emit (Logged LLog ''Sending trade offer to '' None))
       (\<lambda>_. catch_p
          (then_p (createTrade_send env dto)
             (\<lambda>offer. then_p (emit (Logged LLog ''Trade offer sent'' None))
                         (\<lambda>_. resolve offer)))
          (\<lambda>err. then_p
                    (emit (Logged LError ''Got an error while sending trade offer: ''
                       (Some err)))
                    (\<lambda>_. reject err)))"

text \<open>The promise \<open>acceptConfirmation\<close> builds around the community call.\<close>

definition acceptConfirmation_call :: "env \<Rightarrow> string \<Rightarrow> unit async" where
  "acceptConfirmation_call env i =
     (case identitySecret env of
        Inl thrown \<Rightarrow> reject thrown
      | Inr secret \<Rightarrow>
          then_p (emit (AcceptConfirmation i))
            (\<lambda>_. case acceptConfirmationForObject env secret i of
                   Some err \<Rightarrow>
                     if err_message err = ''Could not find confirmation for object '' @ i
                     then reject (NotFoundException ''Confirmation not found'')
                     else reject (Raw err)
                 | None \<Rightarrow> resolve ()))"

definition acceptConfirmation :: "env \<Rightarrow> string \<Rightarrow> unit async" where
  "acceptConfirmation env i =
     then_p (emit (Logged LLog ''Accepting confirmation for offer #'' None))
       (\<lambda>_. catch_p
          (then_p (acceptConfirmation_call env i)
             (\<lambda>_. then_p (emit (Logged LLog ''Accepted confirmation for offer #'' None))
                     (\<lambda>_. emit DoPoll)))
          (\<lambda>err. emit (Logged LError ''Error while accepting confirmation for '' (Some err))))"

text \<open>The condition under which \<open>removeTrade\<close> refuses a fetched offer.\<close>

definition removal_guard :: "ETradeOfferState \<Rightarrow> bool" where
  "removal_guard s = (s = Active \<and> s \<noteq> CreatedNeedsConfirmation)"

text \<open>The callback of \<open>manager.getOffer\<close>, inside the promise \<open>removeTrade\<close> builds.\<close>

definition removeTrade_cancel :: "env \<Rightarrow> string \<Rightarrow> TradeOffer async" where
  "removeTrade_cancel env i =
     then_p (emit (GetOffer i))
       (\<lambda>_. case getOffer env i of
              Inl err \<Rightarrow>
                if err_message err = ''NoMatch''
                then reject (BadRequestException ''Trade offer not found'')
                else reject (Raw err)
            | Inr offer \<Rightarrow>
                if removal_guard (state offer)
                then reject (BadRequestException ''Offer is not active'')
                else then_p (emit (CancelOffer (offer_id offer)))
                       (\<lambda>_. case cancel env offer of
                              Inl err \<Rightarrow>
                                if err_message err =
                                     ''Offer #'' @ offer_id offer @
                                     '' is not active, so it may not be cancelled or declined''
                                then reject (BadRequestException ''Offer is not active'')
                                else (case err_eresult err of
                                        Some r \<Rightarrow>
                                          reject (EResultException (err_message err) r)
                                      | None \<Rightarrow> reject (Raw err))
                            | Inr offer' \<Rightarrow> resolve (mapOffer offer')))"

definition removeTrade :: "env \<Rightarrow> string \<Rightarrow> TradeOffer async" where
  "removeTrade env i =
     then_p (emit (Logged LDebug ''Removing trade offer #'' None))
       (\<lambda>_. catch_p
          (then_p (removeTrade_cancel env i)
             (\<lambda>offer. then_p (emit (Logged LDebug ''Removed trade offer #'' None))
                         (\<lambda>_. resolve offer)))
          (\<lambda>err. then_p
                    (emit (Logged LError ''Error while removing trade offer #'' (Some err)))
                    (\<lambda>_. reject err)))"

section \<open>Sample data\<close>

definition sample_item :: item where
  "sample_item = \<lparr>appid = 440, contextid = ''2'', assetid = ''9001''\<rparr>"

text \<open>An offer a partner sent, active, observed for the first time.\<close>

definition sample_offer :: SteamTradeOffer where
  "sample_offer =
     \<lparr> partner = SteamID ''76561198000000001'',
       offer_id = ''1'',
       message = ''hello'',
       state = Active,
       itemsToGive = [],
       itemsToReceive = [sample_item],
       isGlitched = False,
       isOurOffer = False,
       created = 1700000000999,
       updated = 1700000001000,
       expires = 1701209600000,
       tradeID = None,
       fromRealTimeTrade = False,
       confirmationMethod = 0,
       escrowEnds = None \<rparr>"

definition sample_pollData :: PollData where
  "sample_pollData = \<lparr>sent = [(''7'', Active)], received = [(''1'', Active)], offerData = None\<rparr>"

definition sample_world :: world where
  "sample_world =
     \<lparr> pollData = sample_pollData, trace = [], now = 0, ensurePollDataTimeout = None,
       timers = [], next_handle = 0, queue = [] \<rparr>"

text \<open>
  Collaborators that answer: the engine knows offer 1 only, the channel accepts every
  event, and no confirmation is waiting.
\<close>

definition sample_env :: env where
  "sample_env =
     \<lparr> getOffer = (\<lambda>i. if i = ''1'' then Inr sample_offer else Inl (SteamError ''NoMatch'' None)),
       eventsService_publish = (\<lambda>_. None),
       send = (\<lambda>_. Inl (SteamError ''Cannot send an empty trade offer'' None)),
       cancel = (\<lambda>offer. Inr (offer\<lparr>state := Declined\<rparr>)),
       acceptConfirmationForObject =
         (\<lambda>secret i. Some (SteamError (''Could not find confirmation for object '' @ i) None)),
       identitySecret = Inr ''secret'' \<rparr>"

text \<open>The same collaborators with the outward channel down.\<close>

definition channel_down :: env where
  "channel_down =
     sample_env\<lparr>eventsService_publish :=
       (\<lambda>_. Some (Raw (SteamError ''Channel closed'' None)))\<rparr>"

text \<open>
  The engine's fetch is ahead of its poll data: the last poll saw offer 1 Active, and by
  the time of the sweep the offer has been accepted.
\<close>

definition stale_env :: env where
  "stale_env = sample_env\<lparr>getOffer := (\<lambda>i. Inr (sample_offer\<lparr>state := Accepted\<rparr>))\<rparr>"

definition sample_task :: EnsureOfferPublishedTask where
  "sample_task = \<lparr>task_id = ''1''\<rparr>"

definition after_first_sweep :: world where
  "after_first_sweep = snd (ensureOfferPublished stale_env sample_task sample_world)"

definition after_second_sweep :: world where
  "after_second_sweep = snd (ensureOfferPublished stale_env sample_task after_first_sweep)"

text \<open>
  A burst of poll cycles is quiet when each one comes before the timer of the one before
  it is due: \<open>quiet_burst t cs\<close> for the cycles \<open>cs\<close> that follow a cycle at time \<open>t\<close>.
\<close>

fun quiet_burst :: "nat \<Rightarrow> (nat \<times> PollData) list \<Rightarrow> bool" where
  "quiet_burst t [] = True"
| "quiet_burst t ((t', pd) # cs) = (t \<le> t' \<and> t' < t + 1000 \<and> quiet_burst t' cs)"

text \<open>
  After a poll cycle at time \<open>t\<close>: one timer pending, due a quiet interval later, and
  \<open>ensurePollDataTimeout\<close> holding its handle.
\<close>

definition armed :: "nat \<Rightarrow> world \<Rightarrow> bool" where
  "armed t w =
     (case ensurePollDataTimeout w of
        None \<Rightarrow> False
      | Some h \<Rightarrow> timers w = [(h, t + 1000)] \<and> now w = t)"

text \<open>The tasks one sweep pushes for the poll data \<open>pd\<close>.\<close>

definition sweep_tasks :: "PollData \<Rightarrow> EnsureOfferPublishedTask list" where
  "sweep_tasks pd = map (\<lambda>i. \<lparr>task_id = i\<rparr>) (map fst (sent pd) @ map fst (received pd))"

text \<open>The sweeps in a trace: each one logs its debug line once.\<close>

definition sweep_count :: "effect list \<Rightarrow> nat" where
  "sweep_count es =
     length (filter (\<lambda>e. e = Logged LDebug ''Enqueuing offers to ensure poll data is published'' None) es)"

section \<open>Auxiliary facts\<close>

lemma truthy_Some: "truthy (Some s)"
  by (cases s) (simp_all add: truthy_def)

lemma truthy_None: "\<not> truthy None"
  by (simp add: truthy_def)

lemma publishes_append: "publishes (xs @ ys) = publishes xs @ publishes ys"
  by (induction xs rule: publishes.induct) simp_all

lemma fetches_append: "fetches (xs @ ys) = fetches xs @ fetches ys"
  by (induction xs rule: fetches.induct) simp_all

lemma cancels_append: "cancels (xs @ ys) = cancels xs @ cancels ys"
  by (induction xs rule: cancels.induct) simp_all

lemma epoch_seconds_div: "epoch_seconds ms = ms div 1000"
  unfolding epoch_seconds_def
  by (metis floor_divide_of_int_eq of_int_numeral)

lemma publishOffer_success:
  "eventsService_publish env (classify offer old) = None \<Longrightarrow>
   publishOffer env offer old w =
     offer_data_set offer (state offer) (w\<lparr>trace := trace w @ [Publish (classify offer old)]\<rparr>)"
  by (simp add: publishOffer_def catch_p_def then_p_def events_publish_def offer_data_set_def Let_def)

lemma publishOffer_failure:
  "eventsService_publish env (classify offer old) = Some e \<Longrightarrow>
   publishOffer env offer old w =
     (Inr (), w\<lparr>trace := trace w @
        [Publish (classify offer old), Logged LWarn ''Error publishing offer: '' (Some e)]\<rparr>)"
  by (simp add: publishOffer_def catch_p_def then_p_def events_publish_def emit_def)

lemma offer_data_set_trace: "trace (snd (offer_data_set offer v w)) = trace w"
  by (simp add: offer_data_set_def Let_def)

lemma publishOffer_publishes:
  "publishes (trace (snd (publishOffer env offer old w))) =
     publishes (trace w) @ [classify offer old]"
proof (cases "eventsService_publish env (classify offer old)")
  case None
  then show ?thesis
    by (simp add: publishOffer_success offer_data_set_trace publishes_append)
next
  case (Some e)
  then show ?thesis
    by (simp add: publishOffer_failure publishes_append)
qed

lemma offer_data_set_get:
  "offer_data_get offer (snd (offer_data_set offer v w)) = Some v"
  by (simp add: offer_data_set_def offer_data_get_def Let_def)

lemma offer_data_set_publishedState:
  "publishedState (pollData (snd (offer_data_set offer v w))) (offer_id offer) = Some v"
  by (simp add: offer_data_set_def publishedState_def Let_def)

lemma offer_data_get_publishedState:
  "offer_data_get offer w = publishedState (pollData w) (offer_id offer)"
  by (simp add: offer_data_get_def publishedState_def Let_def split: option.splits)

lemma offer_data_get_trace [simp]:
  "offer_data_get offer (w\<lparr>trace := t\<rparr>) = offer_data_get offer w"
  by (simp add: offer_data_get_def)

lemma publishOffer_resolves: "fst (publishOffer env offer prior w) = Inr ()"
proof (cases "eventsService_publish env (classify offer prior)")
  case None
  then show ?thesis
    by (simp add: publishOffer_success offer_data_set_def Let_def)
next
  case (Some e)
  then show ?thesis
    by (simp add: publishOffer_failure)
qed

lemma publishOffer_marker_written:
  assumes "eventsService_publish env (classify offer prior) = None"
  shows "offer_data_get offer (snd (publishOffer env offer prior w)) = Some (state offer)"
  using assms by (simp add: publishOffer_success offer_data_set_get)


lemma publishOffer_fetches:
  "fetches (trace (snd (publishOffer env offer prior w))) = fetches (trace w)"
  by (cases "eventsService_publish env (classify offer prior)")
     (simp_all add: publishOffer_success publishOffer_failure offer_data_set_trace fetches_append)

lemma ensureOfferPublished_fast:
  "alreadyPublished (pollData w) (task_id task) \<Longrightarrow>
   ensureOfferPublished env task w = (Inr (), w)"
  by (simp add: ensureOfferPublished_def resolve_def)

lemma ensureOfferPublished_fetch_failed:
  "\<not> alreadyPublished (pollData w) (task_id task) \<Longrightarrow>
   getOffer env (task_id task) = Inl err \<Longrightarrow>
   ensureOfferPublished env task w =
     (Inl (if err_message err = ''NoMatch''
           then BadRequestException ''Trade offer not found'' else Raw err),
      w\<lparr>trace := trace w @ [GetOffer (task_id task)]\<rparr>)"
  by (simp add: ensureOfferPublished_def priv_getTrade_def then_p_def emit_def reject_def)

lemma ensureOfferPublished_fetched:
  "\<not> alreadyPublished (pollData w) (task_id task) \<Longrightarrow>
   getOffer env (task_id task) = Inr offer \<Longrightarrow>
   ensureOfferPublished env task w =
     (if Some (state offer) = offer_data_get offer w
      then (Inr (), w\<lparr>trace := trace w @ [GetOffer (task_id task)]\<rparr>)
      else publishOffer env offer (offer_data_get offer w)
             (w\<lparr>trace := trace w @ [GetOffer (task_id task)]\<rparr>))"
  by (simp add: ensureOfferPublished_def priv_getTrade_def then_p_def emit_def resolve_def Let_def)

lemma ensureOfferPublished_resolves_if_fetched:
  "getOffer env (task_id task) = Inr offer \<Longrightarrow> fst (ensureOfferPublished env task w) = Inr ()"
  by (cases "alreadyPublished (pollData w) (task_id task)")
     (simp_all add: ensureOfferPublished_fast ensureOfferPublished_fetched publishOffer_resolves)




lemma classify_None_no_old_state: "classify offer None \<noteq> TradesChanged d (Some s)"
  by (simp add: classify_def truthy_None)

lemma classify_Some: "classify offer (Some old) = TradesChanged (mapOffer offer) (Some old)"
  by (simp add: classify_def truthy_Some)

lemma removal_guard_Active: "removal_guard s = (s = Active)"
  by (auto simp add: removal_guard_def)

lemma removeTrade_cancel_refused:
  "getOffer env i = Inr offer \<Longrightarrow> state offer = Active \<Longrightarrow>
   removeTrade_cancel env i w =
     (Inl (BadRequestException ''Offer is not active''), w\<lparr>trace := trace w @ [GetOffer i]\<rparr>)"
  by (simp add: removeTrade_cancel_def then_p_def emit_def reject_def removal_guard_Active)

lemma removeTrade_cancel_no_offer:
  "getOffer env i = Inl err \<Longrightarrow>
   removeTrade_cancel env i w =
     (Inl (if err_message err = ''NoMatch''
           then BadRequestException ''Trade offer not found'' else Raw err),
      w\<lparr>trace := trace w @ [GetOffer i]\<rparr>)"
  by (simp add: removeTrade_cancel_def then_p_def emit_def reject_def)

lemma removeTrade_cancel_attempted:
  "getOffer env i = Inr offer \<Longrightarrow> state offer \<noteq> Active \<Longrightarrow>
   snd (removeTrade_cancel env i w) =
     w\<lparr>trace := trace w @ [GetOffer i, CancelOffer (offer_id offer)]\<rparr>"
  by (simp add: removeTrade_cancel_def then_p_def emit_def reject_def resolve_def
      removal_guard_Active split: sum.splits option.splits)

text \<open>What the wrapper around the promise adds: log lines, and the error thrown again.\<close>

lemma removeTrade_wrapper:
  "fst (removeTrade env i w) =
     fst (removeTrade_cancel env i
            (w\<lparr>trace := trace w @ [Logged LDebug ''Removing trade offer #'' None]\<rparr>)) \<and>
   cancels (trace (snd (removeTrade env i w))) =
     cancels (trace (snd (removeTrade_cancel env i
            (w\<lparr>trace := trace w @ [Logged LDebug ''Removing trade offer #'' None]\<rparr>))))"
  by (simp add: removeTrade_def then_p_def catch_p_def emit_def reject_def resolve_def
      cancels_append split: prod.splits sum.splits)

lemma getTrade_rejects:
  "getOffer env i = Inl err \<Longrightarrow>
   fst (getTrade env i w) =
     Inl (if err_message err = ''NoMatch''
          then BadRequestException ''Trade offer not found'' else Raw err)"
  by (simp add: getTrade_def priv_getTrade_def then_p_def catch_p_def emit_def reject_def)

lemma createTrade_rejects:
  "send env dto = Inl err \<Longrightarrow>
   fst (createTrade env dto w) =
     Inl (if err_message err = ''Cannot send an empty trade offer''
          then BadRequestException ''Cannot send an empty trade offer''
          else case err_eresult err of
                 Some r \<Rightarrow> EResultException (err_message err) r
               | None \<Rightarrow> Raw err)"
  by (simp add: createTrade_def createTrade_send_def then_p_def catch_p_def emit_def reject_def
      split: option.splits)

lemma removeTrade_rejects:
  "getOffer env i = Inl err \<Longrightarrow>
   fst (removeTrade env i w) =
     Inl (if err_message err = ''NoMatch''
          then BadRequestException ''Trade offer not found'' else Raw err)"
  using removeTrade_wrapper [of env i w]
  by (simp add: removeTrade_cancel_no_offer)

lemma acceptConfirmation_resolves: "fst (acceptConfirmation env i w) = Inr ()"
  by (simp add: acceptConfirmation_def acceptConfirmation_call_def then_p_def catch_p_def
      emit_def reject_def resolve_def split: sum.splits option.splits prod.splits)

lemma run_task_resolves: "fst (run_task env task w) = Inr ()"
  by (simp add: run_task_def catch_p_def then_p_def emit_def split: prod.splits sum.splits)

lemma run_task_logs:
  "fst (ensureOfferPublished env task w) = Inl e \<Longrightarrow>
   trace (snd (run_task env task w)) =
     trace (snd (ensureOfferPublished env task w)) @
       [Logged LWarn ''Error ensuring offer published: '' (Some e), ConsoleLog e]"
  by (cases "ensureOfferPublished env task w")
     (auto simp add: run_task_def catch_p_def then_p_def emit_def)

lemma offer_data_set_pollData:
  "pollData (snd (offer_data_set offer v w)) =
     (pollData w)\<lparr>offerData :=
        Some ((case offerData (pollData w) of None \<Rightarrow> Map.empty | Some m \<Rightarrow> m)
          (offer_id offer \<mapsto>
             (case (case offerData (pollData w) of None \<Rightarrow> Map.empty | Some m \<Rightarrow> m)
                     (offer_id offer) of
                None \<Rightarrow> \<lparr>published = None\<rparr> | Some d \<Rightarrow> d)\<lparr>published := Some v\<rparr>))\<rparr>"
  by (simp add: offer_data_set_def Let_def)

lemma currentState_offerData [simp]:
  "currentState (pd\<lparr>offerData := m\<rparr>) i = currentState pd i"
  by (simp add: currentState_def split: option.splits)

lemma offer_data_set_currentState:
  "currentState (pollData (snd (offer_data_set offer v w))) i = currentState (pollData w) i"
  by (simp add: offer_data_set_pollData)

lemma ensureOfferPublished_published:
  assumes grew: "publishes (trace (snd (ensureOfferPublished env task w))) =
                   publishes (trace w) @ [ev]"
    and ok: "eventsService_publish env ev = None"
  shows "\<exists>offer. getOffer env (task_id task) = Inr offer \<and>
           snd (ensureOfferPublished env task w) =
             snd (offer_data_set offer (state offer)
                   (w\<lparr>trace := trace w @ [GetOffer (task_id task), Publish ev]\<rparr>))"
proof (cases "alreadyPublished (pollData w) (task_id task)")
  case True
  with grew show ?thesis
    by (simp add: ensureOfferPublished_fast)
next
  case slow: False
  show ?thesis
  proof (cases "getOffer env (task_id task)")
    case (Inl err)
    with slow grew show ?thesis
      by (simp add: ensureOfferPublished_fetch_failed publishes_append)
  next
    case (Inr offer)
    show ?thesis
    proof (cases "Some (state offer) = offer_data_get offer w")
      case True
      with slow Inr grew show ?thesis
        by (simp add: ensureOfferPublished_fetched publishes_append)
    next
      case False
      let ?w = "w\<lparr>trace := trace w @ [GetOffer (task_id task)]\<rparr>"
      from False slow Inr
      have run: "ensureOfferPublished env task w =
                   publishOffer env offer (offer_data_get offer w) ?w"
        by (simp add: ensureOfferPublished_fetched)
      with grew have ev: "ev = classify offer (offer_data_get offer w)"
        by (simp add: publishOffer_publishes publishes_append)
      with ok have "snd (ensureOfferPublished env task w) =
          snd (offer_data_set offer (state offer)
                 (w\<lparr>trace := trace w @ [GetOffer (task_id task), Publish ev]\<rparr>))"
        by (simp add: run publishOffer_success)
      with Inr show ?thesis by blast
    qed
  qed
qed

lemma armedE:
  assumes "armed t w"
  obtains h where "timers w = [(h, t + 1000)]" "ensurePollDataTimeout w = Some h" "now w = t"
  using assms by (auto simp add: armed_def split: option.splits)

lemma armedI:
  "timers w = [(h, t + 1000)] \<Longrightarrow> ensurePollDataTimeout w = Some h \<Longrightarrow> now w = t \<Longrightarrow> armed t w"
  by (simp add: armed_def)

lemma sweep_count_append: "sweep_count (xs @ ys) = sweep_count xs + sweep_count ys"
  by (simp add: sweep_count_def)

text \<open>The first poll cycle, with no timer pending, arms the timer and does nothing else.\<close>

lemma first_cycle:
  fixes pd :: PollData
  assumes idle: "timers w = []" and clock: "now w \<le> t"
  defines "w' \<equiv> ensurePollData ((advance t w)\<lparr>pollData := pd\<rparr>)"
  shows "armed t w' \<and> pollData w' = pd \<and> trace w' = trace w \<and> queue w' = queue w"
proof -
  from idle clock have adv: "advance t w = w\<lparr>now := t\<rparr>"
    by (simp add: advance_def max_def)
  show ?thesis
    unfolding w'_def adv using idle
    by (cases "ensurePollDataTimeout w")
       (simp_all add: ensurePollData_def setTimeout_def clearTimeout_def armed_def)
qed

text \<open>A poll cycle before the pending timer is due replaces the timer and does nothing else.\<close>

lemma next_cycle:
  fixes pd :: PollData
  assumes a: "armed t w" and later: "t \<le> t'" and early: "t' < t + 1000"
  defines "w' \<equiv> ensurePollData ((advance t' w)\<lparr>pollData := pd\<rparr>)"
  shows "armed t' w' \<and> pollData w' = pd \<and> trace w' = trace w \<and> queue w' = queue w"
proof -
  from a obtain h where h: "timers w = [(h, t + 1000)]" "ensurePollDataTimeout w = Some h"
    "now w = t"
    by (rule armedE)
  from h early later have adv: "advance t' w = w\<lparr>now := t'\<rparr>"
    by (simp add: advance_def max_def)
  show ?thesis
    unfolding w'_def adv using h
    by (simp add: ensurePollData_def setTimeout_def clearTimeout_def armed_def)
qed

text \<open>Once the quiet interval has passed, the pending timer fires: one sweep.\<close>

lemma expiry:
  assumes a: "armed t w" and due: "t + 1000 \<le> T"
  shows "trace (advance T w) =
           trace w @ [Logged LDebug ''Enqueuing offers to ensure poll data is published'' None] \<and>
         queue (advance T w) = queue w @ sweep_tasks (pollData w) \<and>
         timers (advance T w) = []"
proof -
  from a obtain h where h: "timers w = [(h, t + 1000)]" "ensurePollDataTimeout w = Some h"
    "now w = t"
    by (rule armedE)
  with due show ?thesis
    by (simp add: advance_def sweep_def clearTimeout_def sweep_tasks_def)
qed

lemma burst:
  assumes "armed t w" "pollData w = pd0" "quiet_burst t cs" "last ((t, pd0) # cs) = (t', pd)"
  shows "armed t' (poll_cycles cs w) \<and> pollData (poll_cycles cs w) = pd \<and>
         trace (poll_cycles cs w) = trace w \<and> queue (poll_cycles cs w) = queue w"
  using assms
proof (induction cs arbitrary: t pd0 w)
  case Nil
  then show ?case by simp
next
  case (Cons c cs)
  obtain t1 pd1 where c: "c = (t1, pd1)"
    by (cases c)
  let ?w = "ensurePollData ((advance t1 w)\<lparr>pollData := pd1\<rparr>)"
  from Cons.prems c have times: "t \<le> t1" "t1 < t + 1000" and rest: "quiet_burst t1 cs"
    by simp_all
  from next_cycle [OF Cons.prems(1) times, of pd1]
  have step: "armed t1 ?w" "pollData ?w = pd1" "trace ?w = trace w" "queue ?w = queue w"
    by simp_all
  from Cons.prems(4) c have "last ((t1, pd1) # cs) = (t', pd)"
    by simp
  from Cons.IH [OF step(1) step(2) rest this] step c
  show ?case by simp
qed

lemma quiet_burst_take: "quiet_burst t cs \<Longrightarrow> quiet_burst t (take k cs)"
proof (induction cs arbitrary: t k)
  case Nil
  then show ?case by simp
next
  case (Cons c cs)
  then show ?case
    by (cases k; cases c) simp_all
qed

lemma clearTimeout_length: "length (timers (clearTimeout h w)) \<le> length (timers w)"
  by (simp add: clearTimeout_def)

lemma fire_due_length: "length (timers (fire_due t ts w)) \<le> length (timers w)"
proof (induction ts arbitrary: w)
  case Nil
  show ?case by simp
next
  case (Cons a ts)
  obtain h due where a: "a = (h, due)"
    by (cases a)
  show ?case
  proof (cases "due \<le> t")
    case True
    have "length (timers (fire_due t ts (sweep (clearTimeout h w)))) \<le>
            length (timers (sweep (clearTimeout h w)))"
      by (rule Cons.IH)
    also have "\<dots> \<le> length (timers w)"
      by (simp add: sweep_def clearTimeout_length)
    finally show ?thesis
      using True a by simp
  next
    case False
    with a Cons.IH [of w] show ?thesis by simp
  qed
qed

lemma advance_length: "length (timers (advance T w)) \<le> length (timers w)"
  by (simp add: advance_def fire_due_length)

lemma armed_one_timer: "armed t w \<Longrightarrow> length (timers w) = 1"
  by (erule armedE) simp

text \<open>Every prefix of a quiet burst leaves at most one timer and has fired no sweep.\<close>

lemma burst_prefix:
  assumes idle: "timers w = []" and clock: "now w \<le> t" and quiet: "quiet_burst t cs"
  shows "length (timers (poll_cycles (take k ((t, pd0) # cs)) w)) \<le> 1 \<and>
         trace (poll_cycles (take k ((t, pd0) # cs)) w) = trace w"
proof (cases k)
  case 0
  with idle show ?thesis by simp
next
  case (Suc j)
  let ?w = "ensurePollData ((advance t w)\<lparr>pollData := pd0\<rparr>)"
  from first_cycle [OF idle clock, of pd0]
  have first: "armed t ?w" "pollData ?w = pd0" "trace ?w = trace w"
    by simp_all
  obtain t' pd where l: "last ((t, pd0) # take j cs) = (t', pd)"
    by (cases "last ((t, pd0) # take j cs)")
  from burst [OF first(1) first(2) quiet_burst_take [OF quiet] l] first(3)
  have "armed t' (poll_cycles (take j cs) ?w)" "trace (poll_cycles (take j cs) ?w) = trace w"
    by simp_all
  with Suc show ?thesis
    by (simp add: armed_one_timer)
qed

lemma distinct_count_list: "distinct xs \<Longrightarrow> x \<in> set xs \<Longrightarrow> count_list xs x = 1"
  by (induction xs) auto

lemma disjoint_keys_once:
  assumes "distinct xs" "distinct ys" "set xs \<inter> set ys = {}" "x \<in> set xs \<union> set ys"
  shows "count_list (xs @ ys) x = 1"
proof (cases "x \<in> set xs")
  case True
  with assms have "x \<notin> set ys" by blast
  with True assms show ?thesis
    by (simp add: distinct_count_list)
next
  case False
  with assms have "x \<in> set ys" by blast
  with False assms show ?thesis
    by (simp add: distinct_count_list)
qed

lemma run_task_publish_failed:
  assumes slow: "\<not> alreadyPublished (pollData w) (task_id task)"
    and fetched: "getOffer env (task_id task) = Inr offer"
    and unmarked: "Some (state offer) \<noteq> offer_data_get offer w"
    and down: "eventsService_publish env (classify offer (offer_data_get offer w)) = Some e"
  shows "run_task env task w =
           (Inr (), w\<lparr>trace := trace w @
              [GetOffer (task_id task), Publish (classify offer (offer_data_get offer w)),
               Logged LWarn ''Error publishing offer: '' (Some e)]\<rparr>)"
  using assms
  by (simp add: run_task_def catch_p_def ensureOfferPublished_fetched publishOffer_failure)

lemma payload_classify: "payload (classify offer prior) = mapOffer offer"
  by (simp add: classify_def)

lemma publishOffer_payloads:
  "map payload (publishes (trace (snd (publishOffer env offer prior w)))) =
     map payload (publishes (trace w)) @ [mapOffer offer]"
  by (simp add: publishOffer_publishes payload_classify)

lemma ensureOfferPublished_publishes:
  "publishes (trace (snd (ensureOfferPublished env task w))) = publishes (trace w) \<or>
   (\<exists>fetched. getOffer env (task_id task) = Inr fetched \<and>
      publishes (trace (snd (ensureOfferPublished env task w))) =
        publishes (trace w) @ [classify fetched (offer_data_get fetched w)])"
proof (cases "alreadyPublished (pollData w) (task_id task)")
  case True
  then show ?thesis
    by (simp add: ensureOfferPublished_fast)
next
  case slow: False
  show ?thesis
  proof (cases "getOffer env (task_id task)")
    case (Inl err)
    with slow show ?thesis
      by (simp add: ensureOfferPublished_fetch_failed publishes_append)
  next
    case (Inr fetched)
    with slow show ?thesis
      by (simp add: ensureOfferPublished_fetched publishOffer_publishes publishes_append)
  qed
qed

section \<open>Classification\<close>

text \<open>
  C1. For every offer and optional prior state the classification hands exactly one event
  to the channel, by this table: with no prior state, a remotely-originated Active offer
  is Received; a locally-originated offer in CreatedNeedsConfirmation is Sent; a
  locally-originated Active offer that gives nothing is Sent; a locally-originated Active
  offer that gives something is Changed with no old state; with a prior state \<open>P\<close> other
  than the current state it is Changed with old state \<open>P\<close>; every other offer with no
  prior state is Changed with no old state.
\<close>

theorem classify_table:
  "(\<not> isOurOffer offer \<and> state offer = Active \<longrightarrow>
      classify offer None = TradesReceived (mapOffer offer)) \<and>
   (isOurOffer offer \<and> state offer = CreatedNeedsConfirmation \<longrightarrow>
      classify offer None = TradesSent (mapOffer offer)) \<and>
   (isOurOffer offer \<and> state offer = Active \<and> itemsToGive offer = [] \<longrightarrow>
      classify offer None = TradesSent (mapOffer offer)) \<and>
   (isOurOffer offer \<and> state offer = Active \<and> itemsToGive offer \<noteq> [] \<longrightarrow>
      classify offer None = TradesChanged (mapOffer offer) None) \<and>
   (P \<noteq> state offer \<longrightarrow>
      classify offer (Some P) = TradesChanged (mapOffer offer) (Some P)) \<and>
   (\<not> (\<not> isOurOffer offer \<and> state offer = Active) \<and>
    \<not> (isOurOffer offer \<and> state offer = CreatedNeedsConfirmation) \<and>
    \<not> (isOurOffer offer \<and> state offer = Active) \<longrightarrow>
      classify offer None = TradesChanged (mapOffer offer) None) \<and>
   publishes (trace (snd (publishOffer env offer prior w))) =
     publishes (trace w) @ [classify offer prior]"
proof -
  have received: "classify offer None = TradesReceived (mapOffer offer)"
    if "\<not> isOurOffer offer" "state offer = Active"
    using that by (simp add: classify_def truthy_None)
  have sent_unconfirmed: "classify offer None = TradesSent (mapOffer offer)"
    if "isOurOffer offer" "state offer = CreatedNeedsConfirmation"
    using that by (simp add: classify_def truthy_None)
  have sent_gift: "classify offer None = TradesSent (mapOffer offer)"
    if "isOurOffer offer" "state offer = Active" "itemsToGive offer = []"
    using that by (simp add: classify_def truthy_None)
  have changed_giving: "classify offer None = TradesChanged (mapOffer offer) None"
    if "isOurOffer offer" "state offer = Active" "itemsToGive offer \<noteq> []"
    using that by (simp add: classify_def truthy_None)
  have changed_known: "classify offer (Some P) = TradesChanged (mapOffer offer) (Some P)"
    by (simp add: classify_def truthy_Some)
  have changed_other: "classify offer None = TradesChanged (mapOffer offer) None"
    if "\<not> (\<not> isOurOffer offer \<and> state offer = Active)"
      "\<not> (isOurOffer offer \<and> state offer = CreatedNeedsConfirmation)"
      "\<not> (isOurOffer offer \<and> state offer = Active)"
    using that by (auto simp add: classify_def truthy_None)
  have one: "publishes (trace (snd (publishOffer env offer prior w))) =
               publishes (trace w) @ [classify offer prior]"
    by (rule publishOffer_publishes)
  from received sent_unconfirmed sent_gift changed_giving changed_known changed_other one
  show ?thesis
    by blast
qed

theorem classify_table_witness:
  "classify sample_offer None = TradesReceived (mapOffer sample_offer) \<and>
   classify (sample_offer\<lparr>isOurOffer := True, state := CreatedNeedsConfirmation\<rparr>) None =
     TradesSent (mapOffer (sample_offer\<lparr>isOurOffer := True, state := CreatedNeedsConfirmation\<rparr>)) \<and>
   classify (sample_offer\<lparr>isOurOffer := True\<rparr>) None =
     TradesSent (mapOffer (sample_offer\<lparr>isOurOffer := True\<rparr>)) \<and>
   classify (sample_offer\<lparr>isOurOffer := True, itemsToGive := [sample_item]\<rparr>) None =
     TradesChanged (mapOffer (sample_offer\<lparr>isOurOffer := True, itemsToGive := [sample_item]\<rparr>)) None \<and>
   classify (sample_offer\<lparr>state := Accepted\<rparr>) (Some Active) =
     TradesChanged (mapOffer (sample_offer\<lparr>state := Accepted\<rparr>)) (Some Active) \<and>
   classify (sample_offer\<lparr>state := Declined\<rparr>) None =
     TradesChanged (mapOffer (sample_offer\<lparr>state := Declined\<rparr>)) None \<and>
   publishes (trace (snd (publishOffer sample_env sample_offer None sample_world))) =
     [classify sample_offer None]"
proof -
  let ?sent_unconfirmed = "sample_offer\<lparr>isOurOffer := True, state := CreatedNeedsConfirmation\<rparr>"
  let ?gift = "sample_offer\<lparr>isOurOffer := True\<rparr>"
  let ?giving = "sample_offer\<lparr>isOurOffer := True, itemsToGive := [sample_item]\<rparr>"
  let ?accepted = "sample_offer\<lparr>state := Accepted\<rparr>"
  let ?declined = "sample_offer\<lparr>state := Declined\<rparr>"
  have r1: "\<not> isOurOffer sample_offer \<and> state sample_offer = Active"
    by (simp add: sample_offer_def)
  have r2: "isOurOffer ?sent_unconfirmed \<and> state ?sent_unconfirmed = CreatedNeedsConfirmation"
    by simp
  have r3: "isOurOffer ?gift \<and> state ?gift = Active \<and> itemsToGive ?gift = []"
    by (simp add: sample_offer_def)
  have r4: "isOurOffer ?giving \<and> state ?giving = Active \<and> itemsToGive ?giving \<noteq> []"
    by (simp add: sample_offer_def)
  have r5: "Active \<noteq> state ?accepted"
    by simp
  have r6: "\<not> (\<not> isOurOffer ?declined \<and> state ?declined = Active) \<and>
            \<not> (isOurOffer ?declined \<and> state ?declined = CreatedNeedsConfirmation) \<and>
            \<not> (isOurOffer ?declined \<and> state ?declined = Active)"
    by simp
  have r7: "publishes (trace sample_world) = []"
    by (simp add: sample_world_def)
  from r1 r2 r3 r4 r5 r6 r7
    classify_table [of sample_offer Active sample_env None sample_world]
    classify_table [of ?sent_unconfirmed Active sample_env None sample_world]
    classify_table [of ?gift Active sample_env None sample_world]
    classify_table [of ?giving Active sample_env None sample_world]
    classify_table [of ?accepted Active sample_env None sample_world]
    classify_table [of ?declined Active sample_env None sample_world]
  show ?thesis by simp
qed

section \<open>The projected offer\<close>

text \<open>
  C9. Every published event carries the projection of the engine's offer: the event
  \<open>publishOffer\<close> hands to the channel, from a live handler or from a sweep task, has
  \<open>mapOffer offer\<close> as its payload, whatever its kind. That payload has the listed
  fields: partner identifier, id, message, state, items to give and to receive, glitched
  flag, directionality flag, trade id, real-time-trade flag and confirmation method
  unchanged; created, updated and expires as epoch seconds, the floor of the milliseconds
  divided by 1000; and an escrow end that is null exactly when the offer has none, and
  its epoch seconds otherwise.
\<close>

theorem published_event_projection:
  "payload (classify offer prior) = mapOffer offer \<and>
   map payload (publishes (trace (snd (publishOffer env offer prior w)))) =
     map payload (publishes (trace w)) @ [mapOffer offer] \<and>
   map payload (publishes (trace (on_event env (newOffer offer) w))) =
     map payload (publishes (trace w)) @ [mapOffer offer] \<and>
   map payload (publishes (trace (on_event env (sentOfferChanged offer old) w))) =
     map payload (publishes (trace w)) @ [mapOffer offer] \<and>
   map payload (publishes (trace (on_event env (receivedOfferChanged offer old) w))) =
     map payload (publishes (trace w)) @ [mapOffer offer] \<and>
   (publishes (trace (snd (ensureOfferPublished env task w))) = publishes (trace w) \<or>
    (\<exists>fetched. getOffer env (task_id task) = Inr fetched \<and>
       map payload (publishes (trace (snd (ensureOfferPublished env task w)))) =
         map payload (publishes (trace w)) @ [mapOffer fetched])) \<and>
   dto_partner (payload (classify offer prior)) = getSteamID64 (partner offer) \<and>
   dto_id (payload (classify offer prior)) = offer_id offer \<and>
   dto_message (payload (classify offer prior)) = message offer \<and>
   dto_state (payload (classify offer prior)) = state offer \<and>
   dto_itemsToGive (payload (classify offer prior)) = itemsToGive offer \<and>
   dto_itemsToReceive (payload (classify offer prior)) = itemsToReceive offer \<and>
   dto_isGlitched (payload (classify offer prior)) = isGlitched offer \<and>
   dto_isOurOffer (payload (classify offer prior)) = isOurOffer offer \<and>
   createdAt (payload (classify offer prior)) = created offer div 1000 \<and>
   updatedAt (payload (classify offer prior)) = updated offer div 1000 \<and>
   expiresAt (payload (classify offer prior)) = expires offer div 1000 \<and>
   createdAt (payload (classify offer prior)) * 1000 \<le> created offer \<and>
   created offer < (createdAt (payload (classify offer prior)) + 1) * 1000 \<and>
   updatedAt (payload (classify offer prior)) * 1000 \<le> updated offer \<and>
   updated offer < (updatedAt (payload (classify offer prior)) + 1) * 1000 \<and>
   expiresAt (payload (classify offer prior)) * 1000 \<le> expires offer \<and>
   expires offer < (expiresAt (payload (classify offer prior)) + 1) * 1000 \<and>
   dto_tradeID (payload (classify offer prior)) = tradeID offer \<and>
   dto_fromRealTimeTrade (payload (classify offer prior)) = fromRealTimeTrade offer \<and>
   dto_confirmationMethod (payload (classify offer prior)) = confirmationMethod offer \<and>
   (escrowEndsAt (payload (classify offer prior)) = None) = (escrowEnds offer = None) \<and>
   (\<forall>d. escrowEnds offer = Some d \<longrightarrow>
      escrowEndsAt (payload (classify offer prior)) = Some (d div 1000) \<and>
      (d div 1000) * 1000 \<le> d \<and> d < (d div 1000 + 1) * 1000)"
proof -
  have carried: "payload (classify offer p) = mapOffer offer" for p
    by (rule payload_classify)
  have appended:
    "map payload (publishes (trace (snd (publishOffer env offer p w)))) =
       map payload (publishes (trace w)) @ [mapOffer offer]" for p
    by (rule publishOffer_payloads)
  have swept:
    "publishes (trace (snd (ensureOfferPublished env task w))) = publishes (trace w) \<or>
     (\<exists>fetched. getOffer env (task_id task) = Inr fetched \<and>
        map payload (publishes (trace (snd (ensureOfferPublished env task w)))) =
          map payload (publishes (trace w)) @ [mapOffer fetched])"
    using ensureOfferPublished_publishes [of env task w]
    by (auto simp add: payload_classify)
  have fl: "(x div 1000) * 1000 \<le> x \<and> x < (x div 1000 + 1) * 1000" for x :: int
    by presburger
  have fields:
    "dto_partner (mapOffer offer) = getSteamID64 (partner offer) \<and>
     dto_id (mapOffer offer) = offer_id offer \<and>
     dto_message (mapOffer offer) = message offer \<and>
     dto_state (mapOffer offer) = state offer \<and>
     dto_itemsToGive (mapOffer offer) = itemsToGive offer \<and>
     dto_itemsToReceive (mapOffer offer) = itemsToReceive offer \<and>
     dto_isGlitched (mapOffer offer) = isGlitched offer \<and>
     dto_isOurOffer (mapOffer offer) = isOurOffer offer \<and>
     dto_tradeID (mapOffer offer) = tradeID offer \<and>
     dto_fromRealTimeTrade (mapOffer offer) = fromRealTimeTrade offer \<and>
     dto_confirmationMethod (mapOffer offer) = confirmationMethod offer"
    by (simp add: mapOffer_def)
  have times:
    "createdAt (mapOffer offer) = created offer div 1000 \<and>
     updatedAt (mapOffer offer) = updated offer div 1000 \<and>
     expiresAt (mapOffer offer) = expires offer div 1000"
    by (simp add: mapOffer_def epoch_seconds_div)
  have escrow_none: "(escrowEndsAt (mapOffer offer) = None) = (escrowEnds offer = None)"
    by (simp add: mapOffer_def split: option.splits)
  have escrow_some: "escrowEndsAt (mapOffer offer) = Some (d div 1000)"
    if "escrowEnds offer = Some d" for d
    using that by (simp add: mapOffer_def epoch_seconds_div)
  show ?thesis
    using appended [of prior] appended [of None] appended [of "Some old"] swept fields times
      escrow_none escrow_some fl [of "created offer"] fl [of "updated offer"]
      fl [of "expires offer"] fl
    by (simp add: carried)
qed

theorem published_event_projection_witness:
  "map payload (publishes (trace (snd (publishOffer sample_env sample_offer None sample_world)))) =
     [mapOffer sample_offer] \<and>
   map payload (publishes (trace
      (snd (ensureOfferPublished sample_env sample_task sample_world)))) = [mapOffer sample_offer] \<and>
   createdAt (payload (classify sample_offer None)) = 1700000000 \<and>
   updatedAt (payload (classify sample_offer None)) = 1700000001 \<and>
   escrowEndsAt (payload (classify sample_offer None)) = None \<and>
   escrowEndsAt (payload (classify (sample_offer\<lparr>escrowEnds := Some 1700000123456\<rparr>)
      (Some Invalid))) = Some 1700000123 \<and>
   createdAt (mapOffer sample_offer) = 1700000000 \<and>
   updatedAt (mapOffer sample_offer) = 1700000001 \<and>
   escrowEndsAt (mapOffer sample_offer) = None \<and>
   escrowEndsAt (mapOffer (sample_offer\<lparr>escrowEnds := Some 1700000123456\<rparr>)) = Some 1700000123"
proof -
  let ?held = "sample_offer\<lparr>escrowEnds := Some 1700000123456\<rparr>"
  have e: "escrowEnds ?held = Some 1700000123456"
    by simp
  have n: "escrowEnds sample_offer = None"
    by (simp add: sample_offer_def)
  have empty: "publishes (trace sample_world) = []"
    by (simp add: sample_world_def)
  have slow: "\<not> alreadyPublished (pollData sample_world) (task_id sample_task)"
    by (simp add: alreadyPublished_def currentState_def publishedState_def
        sample_world_def sample_pollData_def sample_task_def)
  have fetched: "getOffer sample_env (task_id sample_task) = Inr sample_offer"
    by (simp add: sample_env_def sample_task_def)
  have unmarked: "offer_data_get sample_offer sample_world = None"
    by (simp add: offer_data_get_def sample_world_def sample_pollData_def)
  have grew: "publishes (trace (snd (ensureOfferPublished sample_env sample_task sample_world))) \<noteq>
                publishes (trace sample_world)"
    using slow fetched unmarked
    by (simp add: ensureOfferPublished_fetched publishOffer_publishes publishes_append)
  note fresh = published_event_projection [of sample_offer None sample_env sample_world Invalid
      sample_task]
  note held = published_event_projection [of ?held "Some Invalid" sample_env sample_world Invalid
      sample_task]
  from fresh empty
  have a: "map payload (publishes (trace
      (snd (publishOffer sample_env sample_offer None sample_world)))) = [mapOffer sample_offer]"
    by simp
  from fresh grew fetched empty
  have b: "map payload (publishes (trace
      (snd (ensureOfferPublished sample_env sample_task sample_world)))) = [mapOffer sample_offer]"
    by auto
  from fresh
  have times: "createdAt (payload (classify sample_offer None)) = created sample_offer div 1000 \<and>
               updatedAt (payload (classify sample_offer None)) = updated sample_offer div 1000 \<and>
               (escrowEndsAt (payload (classify sample_offer None)) = None) =
                 (escrowEnds sample_offer = None)"
    by blast
  with n
  have c: "createdAt (payload (classify sample_offer None)) = 1700000000 \<and>
           updatedAt (payload (classify sample_offer None)) = 1700000001 \<and>
           escrowEndsAt (payload (classify sample_offer None)) = None"
    by (simp add: sample_offer_def)
  from held
  have "\<forall>d. escrowEnds ?held = Some d \<longrightarrow>
          escrowEndsAt (payload (classify ?held (Some Invalid))) = Some (d div 1000) \<and>
          (d div 1000) * 1000 \<le> d \<and> d < (d div 1000 + 1) * 1000"
    by blast
  with e
  have d: "escrowEndsAt (payload (classify ?held (Some Invalid))) = Some 1700000123"
    by simp
  from fresh have link: "payload (classify sample_offer None) = mapOffer sample_offer"
    by blast
  from held have link_held: "payload (classify ?held (Some Invalid)) = mapOffer ?held"
    by blast
  from c
  have c': "createdAt (mapOffer sample_offer) = 1700000000 \<and>
            updatedAt (mapOffer sample_offer) = 1700000001 \<and>
            escrowEndsAt (mapOffer sample_offer) = None"
    by (simp only: link)
  from d
  have d': "escrowEndsAt (mapOffer ?held) = Some 1700000123"
    by (simp only: link_held)
  from a b c d c' d' show ?thesis
    by blast
qed

section \<open>Publish failures\<close>

text \<open>
  C7. A failure of the publish to the outward channel is swallowed in both entry points:
  the promise \<open>publishOffer\<close> returns always resolves, the failure is logged as a
  warning, and a sweep task whose fetch succeeded resolves whatever the channel did, so
  nothing is thrown back into the engine's event dispatch or into the queue. A task whose
  publish failed leaves the queue's remaining tasks to run, from a state that differs by
  its trace alone.
\<close>

theorem publish_failure_swallowed:
  "fst (publishOffer env offer prior w) = Inr () \<and>
   (eventsService_publish env (classify offer prior) = Some e \<longrightarrow>
      snd (publishOffer env offer prior w) =
        w\<lparr>trace := trace w @
          [Publish (classify offer prior), Logged LWarn ''Error publishing offer: '' (Some e)]\<rparr>) \<and>
   (getOffer env (task_id task) = Inr offer \<longrightarrow>
      fst (ensureOfferPublished env task w) = Inr ()) \<and>
   (\<not> alreadyPublished (pollData w) (task_id task) \<and>
    getOffer env (task_id task) = Inr offer \<and>
    Some (state offer) \<noteq> offer_data_get offer w \<and>
    eventsService_publish env (classify offer (offer_data_get offer w)) = Some e \<longrightarrow>
      drain env (task # tasks) w =
        drain env tasks
          (w\<lparr>trace := trace w @
             [GetOffer (task_id task), Publish (classify offer (offer_data_get offer w)),
              Logged LWarn ''Error publishing offer: '' (Some e)]\<rparr>))"
proof -
  have resolves: "fst (publishOffer env offer prior w) = Inr ()"
    by (rule publishOffer_resolves)
  have logged:
    "snd (publishOffer env offer prior w) =
       w\<lparr>trace := trace w @
         [Publish (classify offer prior), Logged LWarn ''Error publishing offer: '' (Some e)]\<rparr>"
    if "eventsService_publish env (classify offer prior) = Some e"
    using that by (simp add: publishOffer_failure)
  have sweep_resolves: "fst (ensureOfferPublished env task w) = Inr ()"
    if "getOffer env (task_id task) = Inr offer"
    using that by (rule ensureOfferPublished_resolves_if_fetched)
  have isolated:
    "drain env (task # tasks) w =
       drain env tasks
         (w\<lparr>trace := trace w @
            [GetOffer (task_id task), Publish (classify offer (offer_data_get offer w)),
             Logged LWarn ''Error publishing offer: '' (Some e)]\<rparr>)"
    if "\<not> alreadyPublished (pollData w) (task_id task)"
      "getOffer env (task_id task) = Inr offer"
      "Some (state offer) \<noteq> offer_data_get offer w"
      "eventsService_publish env (classify offer (offer_data_get offer w)) = Some e"
    using run_task_publish_failed [OF that] by simp
  from resolves logged sweep_resolves isolated show ?thesis
    by blast
qed

theorem publish_failure_swallowed_witness:
  "fst (publishOffer channel_down sample_offer None sample_world) = Inr () \<and>
   trace (snd (publishOffer channel_down sample_offer None sample_world)) =
     [Publish (classify sample_offer None),
      Logged LWarn ''Error publishing offer: '' (Some (Raw (SteamError ''Channel closed'' None)))] \<and>
   fst (ensureOfferPublished channel_down \<lparr>task_id = ''1''\<rparr> sample_world) = Inr () \<and>
   drain channel_down [\<lparr>task_id = ''1''\<rparr>, \<lparr>task_id = ''7''\<rparr>] sample_world =
     drain channel_down [\<lparr>task_id = ''7''\<rparr>]
       (sample_world\<lparr>trace :=
          [GetOffer ''1'', Publish (classify sample_offer None),
           Logged LWarn ''Error publishing offer: ''
             (Some (Raw (SteamError ''Channel closed'' None)))]\<rparr>)"
proof -
  let ?task = "\<lparr>task_id = ''1''\<rparr>"
  let ?e = "Raw (SteamError ''Channel closed'' None)"
  have down: "eventsService_publish channel_down ev = Some ?e" for ev
    by (simp add: channel_down_def)
  have fetched: "getOffer channel_down (task_id ?task) = Inr sample_offer"
    by (simp add: channel_down_def sample_env_def)
  have slow: "\<not> alreadyPublished (pollData sample_world) (task_id ?task)"
    by (simp add: alreadyPublished_def currentState_def publishedState_def
        sample_world_def sample_pollData_def)
  have unmarked: "offer_data_get sample_offer sample_world = None"
    by (simp add: offer_data_get_def sample_world_def sample_pollData_def)
  have empty: "trace sample_world = []"
    by (simp add: sample_world_def)
  from down fetched slow unmarked empty
    publish_failure_swallowed [of channel_down sample_offer None sample_world ?e ?task
      "[\<lparr>task_id = ''7''\<rparr>]"]
  show ?thesis by simp
qed

section \<open>Publish, then mark\<close>



section \<open>Live notifications\<close>

text \<open>
  C6. Every live notification (a new offer, or a changed offer with its prior state) is
  classified and published unconditionally: the handler attempts exactly one publish
  whatever the marker holds, even when the marker is already the offer's state, and
  fetches nothing; on success the marker becomes the offer's current state. The prior
  state handed to the classification is null for a new offer, and only for it: a changed
  offer is published as Changed with the engine's old state, and the event of a new offer
  never carries one.
\<close>

theorem live_notification:
  "publishes (trace (on_event env (newOffer offer) w)) =
     publishes (trace w) @ [classify offer None] \<and>
   publishes (trace (on_event env (sentOfferChanged offer old) w)) =
     publishes (trace w) @ [TradesChanged (mapOffer offer) (Some old)] \<and>
   publishes (trace (on_event env (receivedOfferChanged offer old) w)) =
     publishes (trace w) @ [TradesChanged (mapOffer offer) (Some old)] \<and>
   (\<forall>d s. classify offer None \<noteq> TradesChanged d (Some s)) \<and>
   (offer_data_get offer w = Some (state offer) \<longrightarrow>
      publishes (trace (on_event env (newOffer offer) w)) \<noteq> publishes (trace w) \<and>
      publishes (trace (on_event env (sentOfferChanged offer old) w)) \<noteq> publishes (trace w) \<and>
      publishes (trace (on_event env (receivedOfferChanged offer old) w)) \<noteq> publishes (trace w)) \<and>
   fetches (trace (on_event env (newOffer offer) w)) = fetches (trace w) \<and>
   fetches (trace (on_event env (sentOfferChanged offer old) w)) = fetches (trace w) \<and>
   fetches (trace (on_event env (receivedOfferChanged offer old) w)) = fetches (trace w) \<and>
   (eventsService_publish env (classify offer None) = None \<longrightarrow>
      offer_data_get offer (on_event env (newOffer offer) w) = Some (state offer)) \<and>
   (eventsService_publish env (TradesChanged (mapOffer offer) (Some old)) = None \<longrightarrow>
      offer_data_get offer (on_event env (sentOfferChanged offer old) w) = Some (state offer) \<and>
      offer_data_get offer (on_event env (receivedOfferChanged offer old) w) = Some (state offer))"
proof -
  have one: "publishes (trace (snd (publishOffer env offer p w))) =
               publishes (trace w) @ [classify offer p]" for p
    by (rule publishOffer_publishes)
  have no_fetch: "fetches (trace (snd (publishOffer env offer p w))) = fetches (trace w)" for p
    by (rule publishOffer_fetches)
  have marked: "offer_data_get offer (snd (publishOffer env offer p w)) = Some (state offer)"
    if "eventsService_publish env (classify offer p) = None" for p
    using that by (rule publishOffer_marker_written)
  show ?thesis
    using marked [of None] marked [of "Some old"]
    by (simp add: one no_fetch classify_Some classify_None_no_old_state)
qed

theorem live_notification_witness:
  "publishes (trace (on_event sample_env (newOffer sample_offer)
      (snd (offer_data_set sample_offer Active sample_world)))) = [classify sample_offer None] \<and>
   offer_data_get sample_offer (on_event sample_env (newOffer sample_offer) sample_world) =
     Some Active \<and>
   offer_data_get (sample_offer\<lparr>state := Accepted\<rparr>)
     (on_event sample_env (receivedOfferChanged (sample_offer\<lparr>state := Accepted\<rparr>) Active)
        sample_world) = Some Accepted"
proof -
  let ?marked = "snd (offer_data_set sample_offer Active sample_world)"
  let ?accepted = "sample_offer\<lparr>state := Accepted\<rparr>"
  have up: "eventsService_publish sample_env e = None" for e
    by (simp add: sample_env_def)
  have already: "offer_data_get sample_offer ?marked = Some (state sample_offer)"
    by (simp add: offer_data_set_get sample_offer_def)
  have quiet: "publishes (trace ?marked) = []"
    by (simp add: offer_data_set_trace sample_world_def)
  from up already quiet
    live_notification [of sample_env sample_offer ?marked Active]
    live_notification [of sample_env sample_offer sample_world Active]
    live_notification [of sample_env ?accepted sample_world Active]
  show ?thesis
    by (simp add: sample_offer_def)
qed

section \<open>Removal of an offer\<close>

text \<open>
  C10. In the removal of an offer the guard
  \<open>state === Active && state !== CreatedNeedsConfirmation\<close> holds exactly for the Active
  state (its second conjunct adds nothing), so \<open>removeTrade\<close> rejects every offer fetched
  as Active with BadRequestException 'Offer is not active' before any cancellation, and
  the cancellation is attempted only, and always, for a fetched offer that is not Active.
\<close>

theorem removeTrade_refuses_active:
  "removal_guard s = (s = Active) \<and>
   (getOffer env i = Inr offer \<and> state offer = Active \<longrightarrow>
      fst (removeTrade env i w) = Inl (BadRequestException ''Offer is not active'') \<and>
      cancels (trace (snd (removeTrade env i w))) = cancels (trace w)) \<and>
   (getOffer env i = Inr offer \<and> state offer \<noteq> Active \<longrightarrow>
      cancels (trace (snd (removeTrade env i w))) = cancels (trace w) @ [offer_id offer]) \<and>
   (cancels (trace (snd (removeTrade env i w))) \<noteq> cancels (trace w) \<longrightarrow>
      (\<exists>fetched. getOffer env i = Inr fetched \<and> state fetched \<noteq> Active))"
proof -
  let ?w = "w\<lparr>trace := trace w @ [Logged LDebug ''Removing trade offer #'' None]\<rparr>"
  have before: "cancels (trace ?w) = cancels (trace w)"
    by (simp add: cancels_append)
  have refused:
    "fst (removeTrade env i w) = Inl (BadRequestException ''Offer is not active'') \<and>
     cancels (trace (snd (removeTrade env i w))) = cancels (trace w)"
    if "getOffer env i = Inr offer" "state offer = Active"
    using that removeTrade_wrapper [of env i w]
    by (simp add: removeTrade_cancel_refused cancels_append)
  have attempted:
    "cancels (trace (snd (removeTrade env i w))) = cancels (trace w) @ [offer_id offer]"
    if "getOffer env i = Inr offer" "state offer \<noteq> Active"
    using that removeTrade_wrapper [of env i w]
    by (simp add: removeTrade_cancel_attempted cancels_append)
  have only: "\<exists>fetched. getOffer env i = Inr fetched \<and> state fetched \<noteq> Active"
    if changed: "cancels (trace (snd (removeTrade env i w))) \<noteq> cancels (trace w)"
  proof (cases "getOffer env i")
    case (Inl err)
    with changed removeTrade_wrapper [of env i w] show ?thesis
      by (simp add: removeTrade_cancel_no_offer cancels_append)
  next
    case (Inr fetched)
    have "state fetched \<noteq> Active"
    proof
      assume "state fetched = Active"
      with Inr changed removeTrade_wrapper [of env i w] show False
        by (simp add: removeTrade_cancel_refused cancels_append)
    qed
    with Inr show ?thesis by blast
  qed
  show ?thesis
    using refused attempted only by (simp add: removal_guard_Active)
qed

theorem removeTrade_refuses_active_witness:
  "fst (removeTrade sample_env ''1'' sample_world) =
     Inl (BadRequestException ''Offer is not active'') \<and>
   cancels (trace (snd (removeTrade sample_env ''1'' sample_world))) = [] \<and>
   cancels (trace (snd (removeTrade
      (sample_env\<lparr>getOffer := (\<lambda>i. Inr (sample_offer\<lparr>state := Accepted\<rparr>))\<rparr>) ''1''
      sample_world))) = [''1'']"
proof -
  let ?late = "sample_env\<lparr>getOffer := (\<lambda>i. Inr (sample_offer\<lparr>state := Accepted\<rparr>))\<rparr>"
  have active: "getOffer sample_env ''1'' = Inr sample_offer \<and> state sample_offer = Active"
    by (simp add: sample_env_def sample_offer_def)
  have accepted: "getOffer ?late ''1'' = Inr (sample_offer\<lparr>state := Accepted\<rparr>) \<and>
                  state (sample_offer\<lparr>state := Accepted\<rparr>) \<noteq> Active"
    by simp
  have none: "cancels (trace sample_world) = []"
    by (simp add: sample_world_def)
  from active accepted none
    removeTrade_refuses_active [of Active sample_env "''1''" sample_offer sample_world]
    removeTrade_refuses_active [of Active ?late "''1''" "sample_offer\<lparr>state := Accepted\<rparr>"
      sample_world]
  show ?thesis
    by (simp add: sample_offer_def)
qed

section \<open>Errors of the API operations\<close>

text \<open>
  C8. The API operations are to surface NotFound and engine failures to the caller as
  typed errors, by rejecting. \<open>getTrade\<close>, \<open>createTrade\<close> and \<open>removeTrade\<close> log and
  throw the error again (\<open>getTrade_rejects\<close>, \<open>createTrade_rejects\<close>,
  \<open>removeTrade_rejects\<close>). \<open>acceptConfirmation\<close> builds the NotFoundException
  'Confirmation not found' and rejects its inner promise with it, but its \<open>.catch\<close> logs
  without throwing again: for a confirmation the engine cannot find, the promise the
  caller holds resolves.
\<close>

theorem acceptConfirmation_not_found_resolves:
  "acceptConfirmation sample_env ''123'' sample_world =
     (Inr (),
      sample_world\<lparr>trace :=
        [Logged LLog ''Accepting confirmation for offer #'' None,
         AcceptConfirmation ''123'',
         Logged LError ''Error while accepting confirmation for ''
           (Some (NotFoundException ''Confirmation not found''))]\<rparr>)"
  by (simp add: acceptConfirmation_def acceptConfirmation_call_def then_p_def catch_p_def
      emit_def reject_def sample_env_def sample_world_def)

section \<open>Outcomes of a sweep task\<close>

text \<open>
  C4. The specification has the worker of the sweep queue never raise, whatever the cheap
  lookup, the full fetch and the publish do. The worker awaits \<open>_getTrade\<close> with no
  handler of its own, so a failed fetch rejects it: here the poll data knows offer 7 and
  the engine's fetch answers NoMatch.
\<close>

theorem ensureOfferPublished_rejects_counterexample:
  "fst (ensureOfferPublished sample_env \<lparr>task_id = ''7''\<rparr> sample_world) =
     Inl (BadRequestException ''Trade offer not found'')"
  by (simp add: ensureOfferPublished_def alreadyPublished_def currentState_def
      publishedState_def priv_getTrade_def then_p_def emit_def reject_def Let_def
      sample_env_def sample_world_def sample_pollData_def)

text \<open>
  C4, as the code has it. The worker resolves whenever the fast path applies or the full
  fetch succeeds, whatever the publish does. When the fast path does not apply and the
  fetch fails, the worker rejects, with BadRequestException 'Trade offer not found' for
  NoMatch and with the engine's error otherwise, having published nothing and left the
  poll data alone. The \<open>.catch\<close> the sweep attaches to each pushed task logs that
  rejection, so the promise the sweep holds always resolves.
\<close>

theorem ensureOfferPublished_outcomes:
  "(alreadyPublished (pollData w) (task_id task) \<longrightarrow>
      ensureOfferPublished env task w = (Inr (), w)) \<and>
   (getOffer env (task_id task) = Inr offer \<longrightarrow>
      fst (ensureOfferPublished env task w) = Inr ()) \<and>
   (\<not> alreadyPublished (pollData w) (task_id task) \<and> getOffer env (task_id task) = Inl err \<longrightarrow>
      ensureOfferPublished env task w =
        (Inl (if err_message err = ''NoMatch''
              then BadRequestException ''Trade offer not found'' else Raw err),
         w\<lparr>trace := trace w @ [GetOffer (task_id task)]\<rparr>)) \<and>
   fst (run_task env task w) = Inr () \<and>
   (fst (ensureOfferPublished env task w) = Inl e \<longrightarrow>
      trace (snd (run_task env task w)) =
        trace (snd (ensureOfferPublished env task w)) @
          [Logged LWarn ''Error ensuring offer published: '' (Some e), ConsoleLog e])"
proof -
  have fast: "ensureOfferPublished env task w = (Inr (), w)"
    if "alreadyPublished (pollData w) (task_id task)"
    using that by (rule ensureOfferPublished_fast)
  have fetched: "fst (ensureOfferPublished env task w) = Inr ()"
    if "getOffer env (task_id task) = Inr offer"
    using that by (rule ensureOfferPublished_resolves_if_fetched)
  have failed:
    "ensureOfferPublished env task w =
       (Inl (if err_message err = ''NoMatch''
             then BadRequestException ''Trade offer not found'' else Raw err),
        w\<lparr>trace := trace w @ [GetOffer (task_id task)]\<rparr>)"
    if "\<not> alreadyPublished (pollData w) (task_id task)" "getOffer env (task_id task) = Inl err"
    using that by (rule ensureOfferPublished_fetch_failed)
  show ?thesis
    using fast fetched failed run_task_logs [of env task w e]
    by (simp add: run_task_resolves)
qed

theorem ensureOfferPublished_outcomes_witness:
  "fst (ensureOfferPublished sample_env \<lparr>task_id = ''1''\<rparr> sample_world) = Inr () \<and>
   ensureOfferPublished sample_env \<lparr>task_id = ''7''\<rparr> sample_world =
     (Inl (BadRequestException ''Trade offer not found''),
      sample_world\<lparr>trace := [GetOffer ''7'']\<rparr>) \<and>
   fst (run_task sample_env \<lparr>task_id = ''7''\<rparr> sample_world) = Inr () \<and>
   trace (snd (run_task sample_env \<lparr>task_id = ''7''\<rparr> sample_world)) =
     [GetOffer ''7'',
      Logged LWarn ''Error ensuring offer published: ''
        (Some (BadRequestException ''Trade offer not found'')),
      ConsoleLog (BadRequestException ''Trade offer not found'')]"
proof -
  let ?known = "\<lparr>task_id = ''1''\<rparr>"
  let ?gone = "\<lparr>task_id = ''7''\<rparr>"
  let ?err = "SteamError ''NoMatch'' None"
  have fetched: "getOffer sample_env (task_id ?known) = Inr sample_offer"
    by (simp add: sample_env_def)
  have slow: "\<not> alreadyPublished (pollData sample_world) (task_id ?gone)"
    by (simp add: alreadyPublished_def currentState_def publishedState_def
        sample_world_def sample_pollData_def)
  have no_match: "getOffer sample_env (task_id ?gone) = Inl ?err"
    by (simp add: sample_env_def)
  have empty: "trace sample_world = []"
    by (simp add: sample_world_def)
  note known = ensureOfferPublished_outcomes [of sample_world ?known sample_env sample_offer ?err
      "BadRequestException ''Trade offer not found''"]
  note gone = ensureOfferPublished_outcomes [of sample_world ?gone sample_env sample_offer ?err
      "BadRequestException ''Trade offer not found''"]
  from fetched known have a: "fst (ensureOfferPublished sample_env ?known sample_world) = Inr ()"
    by blast
  from slow no_match gone empty
  have b: "ensureOfferPublished sample_env ?gone sample_world =
             (Inl (BadRequestException ''Trade offer not found''),
              sample_world\<lparr>trace := [GetOffer ''7'']\<rparr>)"
    by simp
  from gone have c: "fst (run_task sample_env ?gone sample_world) = Inr ()"
    by blast
  from gone b
  have d: "trace (snd (run_task sample_env ?gone sample_world)) =
     [GetOffer ''7'',
      Logged LWarn ''Error ensuring offer published: ''
        (Some (BadRequestException ''Trade offer not found'')),
      ConsoleLog (BadRequestException ''Trade offer not found'')]"
    by simp
  from a b c d show ?thesis by blast
qed

section \<open>Two sweep tasks in sequence\<close>

text \<open>
  C2. The specification has the second of two sweep tasks in sequence, the first having
  published with success and nothing having changed in between, publish nothing and
  fetch nothing, because the cheap state equals the marker. The marker is the state of
  the fetched offer, and the cheap state is what the last poll stored: here the poll data
  has offer 1 Active while the engine fetches it Accepted. The first run publishes and
  marks Accepted; the second publishes nothing, but its fast path fails and it fetches.
\<close>

theorem stale_poll_data_counterexample:
  "publishes (trace after_first_sweep) =
     [TradesChanged (mapOffer (sample_offer\<lparr>state := Accepted\<rparr>)) None] \<and>
   eventsService_publish stale_env
     (TradesChanged (mapOffer (sample_offer\<lparr>state := Accepted\<rparr>)) None) = None \<and>
   publishedState (pollData after_first_sweep) ''1'' = Some Accepted \<and>
   currentState (pollData after_first_sweep) ''1'' = Some Active \<and>
   fetches (trace after_first_sweep) = [''1''] \<and>
   publishes (trace after_second_sweep) = publishes (trace after_first_sweep) \<and>
   fetches (trace after_second_sweep) = [''1'', ''1'']"
proof -
  let ?accepted = "sample_offer\<lparr>state := Accepted\<rparr>"
  have slow: "\<not> alreadyPublished (pollData sample_world) (task_id sample_task)"
    by (simp add: alreadyPublished_def currentState_def publishedState_def
        sample_world_def sample_pollData_def sample_task_def)
  have fetched: "getOffer stale_env (task_id sample_task) = Inr ?accepted"
    by (simp add: stale_env_def)
  have up: "eventsService_publish stale_env e = None" for e
    by (simp add: stale_env_def sample_env_def)
  have unmarked: "offer_data_get ?accepted sample_world = None"
    by (simp add: offer_data_get_def sample_world_def sample_pollData_def)
  have event: "classify ?accepted None = TradesChanged (mapOffer ?accepted) None"
    by (simp add: classify_def truthy_None sample_offer_def)
  have first: "after_first_sweep =
      snd (offer_data_set ?accepted Accepted
        (sample_world\<lparr>trace := [GetOffer ''1'', Publish (TradesChanged (mapOffer ?accepted) None)]\<rparr>))"
    using slow fetched unmarked up event
    by (simp add: after_first_sweep_def ensureOfferPublished_fetched publishOffer_success
        sample_world_def sample_task_def)
  have id: "offer_id ?accepted = ''1''"
    by (simp add: sample_offer_def)
  have marker: "publishedState (pollData after_first_sweep) ''1'' = Some Accepted"
    using offer_data_set_publishedState [of ?accepted Accepted] by (simp add: first id)
  have cheap: "currentState (pollData after_first_sweep) ''1'' = Some Active"
    by (simp add: first offer_data_set_currentState)
       (simp add: currentState_def sample_world_def sample_pollData_def)
  have slow2: "\<not> alreadyPublished (pollData after_first_sweep) (task_id sample_task)"
    using marker cheap by (simp add: alreadyPublished_def sample_task_def)
  have marked: "offer_data_get ?accepted after_first_sweep = Some (state ?accepted)"
    using marker by (simp add: offer_data_get_publishedState id)
  have second: "after_second_sweep =
      after_first_sweep\<lparr>trace := trace after_first_sweep @ [GetOffer ''1'']\<rparr>"
    using slow2 fetched marked
    by (simp add: after_second_sweep_def ensureOfferPublished_fetched sample_task_def)
  have t1: "trace after_first_sweep =
      [GetOffer ''1'', Publish (TradesChanged (mapOffer ?accepted) None)]"
    by (simp add: first offer_data_set_trace)
  show ?thesis
    using up marker cheap by (simp add: second t1)
qed

text \<open>
  C2, as the code has it. When a sweep task runs twice in sequence with nothing changed
  in between (the poll data as the first run left it, the full fetch answering as before)
  and the first run's publish succeeded, the second run resolves, publishes nothing and
  leaves the poll data alone. The first run marked the state of the offer it fetched. If
  the cheap state in the poll data is that state, the second run ends on the fast path,
  with no fetch and no other effect; if the poll data still holds another state, the
  second run fetches the offer again and ends at the comparison after the fetch.
\<close>

theorem reconcile_twice:
  assumes first: "ensureOfferPublished env1 task w = (r1, w1)"
    and grew: "publishes (trace w1) = publishes (trace w) @ [ev]"
    and ok: "eventsService_publish env1 ev = None"
    and same: "getOffer env2 (task_id task) = getOffer env1 (task_id task)"
    and second: "ensureOfferPublished env2 task w1 = (r2, w2)"
  shows "r2 = Inr () \<and> publishes (trace w2) = publishes (trace w1) \<and>
         pollData w2 = pollData w1 \<and>
         (\<exists>offer. getOffer env1 (task_id task) = Inr offer \<and>
            offer_data_get offer w1 = Some (state offer) \<and>
            (offer_id offer = task_id task \<longrightarrow>
               (if currentState (pollData w) (task_id task) = Some (state offer)
                then w2 = w1
                else fetches (trace w2) = fetches (trace w1) @ [task_id task])))"
proof -
  let ?i = "task_id task"
  from first grew have "publishes (trace (snd (ensureOfferPublished env1 task w))) =
      publishes (trace w) @ [ev]"
    by simp
  from ensureOfferPublished_published [OF this ok] first
  obtain offer where fetched: "getOffer env1 ?i = Inr offer"
    and w1: "w1 = snd (offer_data_set offer (state offer)
                   (w\<lparr>trace := trace w @ [GetOffer ?i, Publish ev]\<rparr>))"
    by auto
  from w1 have marked: "offer_data_get offer w1 = Some (state offer)"
    by (simp add: offer_data_set_get)
  from w1 have cheap: "currentState (pollData w1) ?i = currentState (pollData w) ?i"
    by (simp add: offer_data_set_currentState)
  from fetched same have again: "getOffer env2 ?i = Inr offer"
    by simp
  show ?thesis
  proof (cases "alreadyPublished (pollData w1) ?i")
    case True
    with second have w2: "r2 = Inr ()" "w2 = w1"
      by (simp_all add: ensureOfferPublished_fast)
    have "offer_id offer = ?i \<Longrightarrow> currentState (pollData w) ?i = Some (state offer)"
      using True marked cheap
      by (auto simp add: alreadyPublished_def offer_data_get_publishedState split: option.splits)
    with w2 fetched marked show ?thesis
      by auto
  next
    case False
    with again second marked
    have w2: "r2 = Inr ()" "w2 = w1\<lparr>trace := trace w1 @ [GetOffer ?i]\<rparr>"
      by (simp_all add: ensureOfferPublished_fetched)
    have "offer_id offer = ?i \<Longrightarrow> currentState (pollData w) ?i \<noteq> Some (state offer)"
      using False marked cheap
      by (auto simp add: alreadyPublished_def offer_data_get_publishedState split: option.splits)
    with w2 fetched marked show ?thesis
      by (auto simp add: publishes_append fetches_append)
  qed
qed

theorem reconcile_twice_witness:
  "publishes (trace after_second_sweep) = publishes (trace after_first_sweep) \<and>
   pollData after_second_sweep = pollData after_first_sweep \<and>
   fetches (trace after_second_sweep) = fetches (trace after_first_sweep) @ [''1''] \<and>
   snd (ensureOfferPublished sample_env sample_task
          (snd (ensureOfferPublished sample_env sample_task sample_world))) =
     snd (ensureOfferPublished sample_env sample_task sample_world)"
proof -
  let ?accepted = "sample_offer\<lparr>state := Accepted\<rparr>"
  let ?i = "task_id sample_task"
  have slow: "\<not> alreadyPublished (pollData sample_world) ?i"
    by (simp add: alreadyPublished_def currentState_def publishedState_def
        sample_world_def sample_pollData_def sample_task_def)
  have cheap: "currentState (pollData sample_world) ?i = Some Active"
    by (simp add: currentState_def sample_world_def sample_pollData_def sample_task_def)
  have unmarked: "offer_data_get offer sample_world = None" for offer
    by (simp add: offer_data_get_def sample_world_def sample_pollData_def)
  have stale: "getOffer stale_env ?i = Inr ?accepted"
    by (simp add: stale_env_def)
  have fresh: "getOffer sample_env ?i = Inr sample_offer"
    by (simp add: sample_env_def sample_task_def)
  have up: "eventsService_publish stale_env e = None" "eventsService_publish sample_env e = None"
    for e
    by (simp_all add: stale_env_def sample_env_def)
  have grew_stale: "publishes (trace after_first_sweep) =
      publishes (trace sample_world) @ [classify ?accepted None]"
    using slow stale unmarked
    by (simp add: after_first_sweep_def ensureOfferPublished_fetched publishOffer_publishes
        publishes_append)
  have grew_fresh:
    "publishes (trace (snd (ensureOfferPublished sample_env sample_task sample_world))) =
       publishes (trace sample_world) @ [classify sample_offer None]"
    using slow fresh unmarked
    by (simp add: ensureOfferPublished_fetched publishOffer_publishes publishes_append
        sample_offer_def)
  have ids: "offer_id ?accepted = ?i" "offer_id sample_offer = ?i"
    by (simp_all add: sample_offer_def sample_task_def)
  have states: "state ?accepted = Accepted" "state sample_offer = Active"
    by (simp_all add: sample_offer_def)
  have a: "publishes (trace after_second_sweep) = publishes (trace after_first_sweep) \<and>
           pollData after_second_sweep = pollData after_first_sweep \<and>
           fetches (trace after_second_sweep) = fetches (trace after_first_sweep) @ [''1'']"
    using reconcile_twice [of stale_env sample_task sample_world
        "fst (ensureOfferPublished stale_env sample_task sample_world)" after_first_sweep
        "classify ?accepted None" stale_env
        "fst (ensureOfferPublished stale_env sample_task after_first_sweep)" after_second_sweep]
      grew_stale up stale cheap ids states
    by (auto simp add: after_first_sweep_def after_second_sweep_def sample_task_def)
  have b: "snd (ensureOfferPublished sample_env sample_task
              (snd (ensureOfferPublished sample_env sample_task sample_world))) =
           snd (ensureOfferPublished sample_env sample_task sample_world)"
    using reconcile_twice [of sample_env sample_task sample_world
        "fst (ensureOfferPublished sample_env sample_task sample_world)"
        "snd (ensureOfferPublished sample_env sample_task sample_world)"
        "classify sample_offer None" sample_env
        "fst (ensureOfferPublished sample_env sample_task
               (snd (ensureOfferPublished sample_env sample_task sample_world)))"
        "snd (ensureOfferPublished sample_env sample_task
               (snd (ensureOfferPublished sample_env sample_task sample_world)))"]
      grew_fresh up fresh cheap ids states
    by auto
  from a b show ?thesis by blast
qed

section \<open>The debounced sweep\<close>

text \<open>
  C5. For every burst of one or more poll cycles, each within the quiet interval of
  1000 ms of the one before, started with no timer pending: at most one timer is pending
  at any time, no sweep fires during the burst, and once the interval has passed after the
  last cycle exactly one sweep has fired. That sweep pushes the keys of the sent side and
  then those of the received side of the poll data, as the last cycle left it; the keys
  of an object are distinct, and an offer id has one direction, so this is exactly one
  task for each id of the union.
\<close>

theorem sweep_coalescing:
  assumes idle: "timers w = []"
    and clock: "now w \<le> t"
    and quiet: "quiet_burst t cs"
    and final: "last ((t, pd0) # cs) = (t', pd)"
    and passed: "t' + 1000 \<le> T"
    and keys: "distinct (map fst (sent pd))" "distinct (map fst (received pd))"
      "set (map fst (sent pd)) \<inter> set (map fst (received pd)) = {}"
  shows "(\<forall>k T'. length (timers (advance T' (poll_cycles (take k ((t, pd0) # cs)) w))) \<le> 1) \<and>
         (\<forall>k. sweep_count (trace (poll_cycles (take k ((t, pd0) # cs)) w)) =
                sweep_count (trace w)) \<and>
         sweep_count (trace (advance T (poll_cycles ((t, pd0) # cs) w))) =
           sweep_count (trace w) + 1 \<and>
         timers (advance T (poll_cycles ((t, pd0) # cs) w)) = [] \<and>
         queue (advance T (poll_cycles ((t, pd0) # cs) w)) = queue w @ sweep_tasks pd \<and>
         map task_id (sweep_tasks pd) = map fst (sent pd) @ map fst (received pd) \<and>
         (\<forall>i \<in> fst ` set (sent pd) \<union> fst ` set (received pd).
            count_list (map task_id (sweep_tasks pd)) i = 1)"
proof -
  let ?calls = "(t, pd0) # cs"
  let ?first = "ensurePollData ((advance t w)\<lparr>pollData := pd0\<rparr>)"
  have pending: "length (timers (advance T' (poll_cycles (take k ?calls) w))) \<le> 1" for k T'
  proof -
    have "length (timers (advance T' (poll_cycles (take k ?calls) w))) \<le>
            length (timers (poll_cycles (take k ?calls) w))"
      by (rule advance_length)
    also have "\<dots> \<le> 1"
      using burst_prefix [OF idle clock quiet] by blast
    finally show ?thesis .
  qed
  have silent: "sweep_count (trace (poll_cycles (take k ?calls) w)) = sweep_count (trace w)" for k
    using burst_prefix [OF idle clock quiet, of k pd0] by simp
  from first_cycle [OF idle clock, of pd0]
  have first: "armed t ?first" "pollData ?first = pd0" "trace ?first = trace w"
    "queue ?first = queue w"
    by simp_all
  from burst [OF first(1) first(2) quiet final] first
  have last: "armed t' (poll_cycles ?calls w)" "pollData (poll_cycles ?calls w) = pd"
    "trace (poll_cycles ?calls w) = trace w" "queue (poll_cycles ?calls w) = queue w"
    by simp_all
  from expiry [OF last(1) passed] last
  have fired: "sweep_count (trace (advance T (poll_cycles ?calls w))) = sweep_count (trace w) + 1"
    "timers (advance T (poll_cycles ?calls w)) = []"
    "queue (advance T (poll_cycles ?calls w)) = queue w @ sweep_tasks pd"
    by (simp_all add: sweep_count_append) (simp add: sweep_count_def)
  have ids: "map task_id (sweep_tasks pd) = map fst (sent pd) @ map fst (received pd)"
    by (simp add: sweep_tasks_def comp_def)
  have once: "count_list (map task_id (sweep_tasks pd)) i = 1"
    if "i \<in> fst ` set (sent pd) \<union> fst ` set (received pd)" for i
    unfolding ids using keys that by (intro disjoint_keys_once) simp_all
  from pending silent fired ids once show ?thesis
    by blast
qed

theorem sweep_coalescing_witness:
  "sweep_count (trace (advance 1900 (poll_cycles
      [(0, sample_pollData), (400, sample_pollData), (900, sample_pollData)] sample_world))) = 1 \<and>
   queue (advance 1900 (poll_cycles
      [(0, sample_pollData), (400, sample_pollData), (900, sample_pollData)] sample_world)) =
     [\<lparr>task_id = ''7''\<rparr>, \<lparr>task_id = ''1''\<rparr>] \<and>
   timers (advance 1900 (poll_cycles
      [(0, sample_pollData), (400, sample_pollData), (900, sample_pollData)] sample_world)) = [] \<and>
   count_list (map task_id (sweep_tasks sample_pollData)) ''7'' = 1"
proof -
  let ?cs = "[(400, sample_pollData), (900 :: nat, sample_pollData)]"
  have idle: "timers sample_world = []"
    and clock: "now sample_world \<le> 0"
    and quiet: "quiet_burst 0 ?cs"
    and final: "last ((0, sample_pollData) # ?cs) = (900, sample_pollData)"
    and passed: "(900 :: nat) + 1000 \<le> 1900"
    and keys: "distinct (map fst (sent sample_pollData))"
      "distinct (map fst (received sample_pollData))"
      "set (map fst (sent sample_pollData)) \<inter> set (map fst (received sample_pollData)) = {}"
    by (simp_all add: sample_world_def sample_pollData_def)
  have known: "''7'' \<in> fst ` set (sent sample_pollData) \<union> fst ` set (received sample_pollData)"
    by (simp add: sample_pollData_def)
  have start: "sweep_count (trace sample_world) = 0" "queue sample_world = []"
    by (simp_all add: sample_world_def sweep_count_def)
  have tasks: "sweep_tasks sample_pollData = [\<lparr>task_id = ''7''\<rparr>, \<lparr>task_id = ''1''\<rparr>]"
    by (simp add: sweep_tasks_def sample_pollData_def)
  note run = sweep_coalescing [OF idle clock quiet final passed keys]
  from run start
  have a: "sweep_count (trace (advance 1900 (poll_cycles
      [(0, sample_pollData), (400, sample_pollData), (900, sample_pollData)] sample_world))) = 1"
    by simp
  from run start tasks
  have b: "queue (advance 1900 (poll_cycles
      [(0, sample_pollData), (400, sample_pollData), (900, sample_pollData)] sample_world)) =
     [\<lparr>task_id = ''7''\<rparr>, \<lparr>task_id = ''1''\<rparr>]"
    by simp
  from run
  have c: "timers (advance 1900 (poll_cycles
      [(0, sample_pollData), (400, sample_pollData), (900, sample_pollData)] sample_world)) = []"
    by blast
  from run known
  have d: "count_list (map task_id (sweep_tasks sample_pollData)) ''7'' = 1"
    by blast
  from a b c d show ?thesis
    by blast
qed

end
